theory Spec2Isabelle
  imports Complex_Main "HOL-Library.AList"
begin

text \<open>
  The AI course builder: \<open>executeCourseCreation\<close> and \<open>sendProgress\<close> of the
  \<open>course-builder/create\<close> route, and \<open>queryPineconeContent\<close>,
  \<open>generateEnhancedCourse\<close>, \<open>createCourseInTutorLMS\<close> and \<open>generateFeaturedImage\<close> of
  the course-builder helpers, with the filter of the stand-alone content query route.
  Every call to the outside (vector index, completion model, image model, LMS) is
  answered by a parameter of the model, so that a property proved here holds whatever the
  outside does; a call returns or throws, and one that never returns is outside the
  model. Writing the debug log is not modelled, and timestamps are left out of the events.
\<close>

section \<open>JavaScript values\<close>

text \<open>
  The course builder handles untyped JSON: replies of the LMS, request payloads, the
  \<open>generateFeaturedImage\<close> flag of the request body. They are modelled by one datatype of
  JavaScript values. Numbers are the integers (identifiers, indices, counts and the
  constants of the payloads); an object is the list of its properties in insertion order.
\<close>

datatype jsval =
    JUndefined
  | JNull
  | JBool bool
  | JNum int
  | JStr string
  | JArr "jsval list"
  | JObj "(string \<times> jsval) list"

text \<open>Truthiness, as \<open>!x\<close>, \<open>x || y\<close> and \<open>if (x)\<close> read it.\<close>

fun truthy :: "jsval \<Rightarrow> bool" where
  "truthy JUndefined = False"
| "truthy JNull = False"
| "truthy (JBool b) = b"
| "truthy (JNum n) = (n \<noteq> 0)"
| "truthy (JStr s) = (s \<noteq> [])"
| "truthy (JArr xs) = True"
| "truthy (JObj kvs) = True"

text \<open>\<open>a || b\<close>: the left operand when it is truthy, the right one otherwise.\<close>

definition js_or :: "jsval \<Rightarrow> jsval \<Rightarrow> jsval" where
  "js_or a b = (if truthy a then a else b)"

text \<open>Reading a property of an object: \<open>undefined\<close> when the key is absent.\<close>

definition js_get :: "(string \<times> jsval) list \<Rightarrow> string \<Rightarrow> jsval" where
  "js_get kvs k = (case map_of kvs k of None \<Rightarrow> JUndefined | Some v \<Rightarrow> v)"

text \<open>
  \<open>obj.k = v\<close>: an existing property keeps its place and takes the new value, a new one
  is appended.
\<close>

definition js_set :: "(string \<times> jsval) list \<Rightarrow> string \<Rightarrow> jsval \<Rightarrow> (string \<times> jsval) list" where
  "js_set kvs k v = AList.update k v kvs"

text \<open>Whether the object has the property at all (\<open>k in obj\<close>).\<close>

definition has_field :: "(string \<times> jsval) list \<Rightarrow> string \<Rightarrow> bool" where
  "has_field kvs k = (map_of kvs k \<noteq> None)"

datatype exn =
    TypeError
  | FetchFailed
  | JsonSyntaxError
  | Error string

text \<open>
  \<open>x.k\<close> throws a TypeError on \<open>undefined\<close> and \<open>null\<close>; \<open>x?.k\<close> yields \<open>undefined\<close>
  there. The keys read this way are \<open>data\<close> and \<open>id\<close>, which no number, string, boolean
  or array has.
\<close>

fun opt_prop :: "jsval \<Rightarrow> string \<Rightarrow> jsval" where
  "opt_prop (JObj kvs) k = js_get kvs k"
| "opt_prop v k = JUndefined"

fun get_prop :: "jsval \<Rightarrow> string \<Rightarrow> exn + jsval" where
  "get_prop JUndefined k = Inl TypeError"
| "get_prop JNull k = Inl TypeError"
| "get_prop v k = Inr (opt_prop v k)"

section \<open>Identifiers in the replies of the LMS\<close>

text \<open>
  \<open>const courseId = courseResult.data || courseResult.id\<close>
  (\<open>createCourseInTutorLMS\<close>, the course create-call).
\<close>

definition courseId_of :: "jsval \<Rightarrow> exn + jsval" where
  "courseId_of courseResult =
     (case get_prop courseResult ''data'' of
        Inl e \<Rightarrow> Inl e
      | Inr d \<Rightarrow> if truthy d then Inr d else get_prop courseResult ''id'')"

text \<open>
  \<open>const topicId = topicResult.data?.id || topicResult.data || topicResult.id\<close>, and the
  same expression for \<open>lessonId\<close> and \<open>quizId\<close>.
\<close>

definition extract_id :: "jsval \<Rightarrow> exn + jsval" where
  "extract_id result =
     (case get_prop result ''data'' of
        Inl e \<Rightarrow> Inl e
      | Inr d \<Rightarrow>
          if truthy (opt_prop d ''id'') then Inr (opt_prop d ''id'')
          else if truthy d then Inr d
          else get_prop result ''id'')"

section \<open>The course tree\<close>

text \<open>
  The synthesized course structure, with the fields the publisher reads. A field that the
  publisher guards (\<open>x || default\<close>, \<open>x?.y\<close>) is optional here; a field it reads
  unguarded has its type. \<open>correctAnswer\<close> is a number in the synthesis prompt and a
  boolean in the data model of true/false questions, and may be missing.
\<close>

datatype answer_ref = KAbsent | KNum int | KBool bool

record question =
  q_type :: "string option"
  q_question :: string
  q_options :: "string list option"
  q_correctAnswer :: answer_ref
  q_correctAnswers :: "int list option"
  q_explanation :: "string option"

record lesson =
  l_title :: string
  l_content :: string
  l_imageDescription :: "string option"

record quiz =
  qz_title :: string
  qz_description :: "string option"
  qz_questions :: "question list"

record topic =
  t_title :: string
  t_summary :: string
  t_lessons :: "lesson list"
  t_quiz :: "quiz option"

record course =
  c_title :: string
  c_description :: string
  c_difficulty :: string
  c_duration :: "int option"
  c_overview :: "string option"
  c_learningObjectives :: "string list option"
  c_targetAudience :: "string list option"
  c_requirements :: "string list option"
  c_materialsIncluded :: "string list option"
  c_tags :: "string list option"

record course_structure =
  cs_course :: course
  cs_topics :: "topic list"

section \<open>Question payloads\<close>

text \<open>\<open>s || ''\<close> on an optional string.\<close>

definition str_or_empty :: "string option \<Rightarrow> string" where
  "str_or_empty s = (case s of None \<Rightarrow> [] | Some t \<Rightarrow> t)"

text \<open>\<open>const mappedType = question.type || 'single_choice'\<close>\<close>

definition mappedType :: "question \<Rightarrow> string" where
  "mappedType q =
     (case q_type q of
        None \<Rightarrow> ''single_choice''
      | Some t \<Rightarrow> if t = [] then ''single_choice'' else t)"

text \<open>
  \<open>question.options?.[k]\<close>: the option text when \<open>k\<close> is a number inside the array,
  \<open>undefined\<close> otherwise (no options, a missing or boolean key, an index out of range).
\<close>

fun option_at :: "string list option \<Rightarrow> answer_ref \<Rightarrow> jsval" where
  "option_at (Some opts) (KNum i) =
     (if 0 \<le> i \<and> nat i < length opts then JStr (opts ! nat i) else JUndefined)"
| "option_at opts k = JUndefined"

text \<open>\<open>question.options || []\<close>\<close>

definition options_or_empty :: "question \<Rightarrow> jsval" where
  "options_or_empty q =
     (case q_options q of None \<Rightarrow> JArr [] | Some opts \<Rightarrow> JArr (map JStr opts))"

text \<open>
  \<open>question.correctAnswers?.map((idx) => question.options?.[idx]) || []\<close>: an array is
  truthy even when it is empty.
\<close>

definition correct_texts :: "question \<Rightarrow> jsval" where
  "correct_texts q =
     (case q_correctAnswers q of
        None \<Rightarrow> JArr []
      | Some idxs \<Rightarrow> JArr (map (\<lambda>idx. option_at (q_options q) (KNum idx)) idxs))"

text \<open>
  The object \<open>questionData\<close> that the question loop of \<open>createCourseInTutorLMS\<close> builds and
  posts to \<open>quiz-questions\<close>: the common fields, then the fields of the question kind.
\<close>

definition questionData :: "jsval \<Rightarrow> question \<Rightarrow> (string \<times> jsval) list" where
  "questionData quizId q =
     (let base =
        [(''quiz_id'', quizId),
         (''question_title'', JStr (q_question q)),
         (''question_type'', JStr (mappedType q)),
         (''answer_required'', JNum 1),
         (''randomize_question'', JNum 1),
         (''question_mark'', JNum 1),
         (''show_question_mark'', JNum 1),
         (''answer_explanation'', JStr (str_or_empty (q_explanation q))),
         (''question_description'', JStr (str_or_empty (q_explanation q)))]
      in
      if mappedType q = ''single_choice'' then
        js_set (js_set base ''options'' (options_or_empty q)) ''correct_answer''
          (js_or (option_at (q_options q) (q_correctAnswer q))
                 (option_at (q_options q) (KNum 0)))
      else if mappedType q = ''multiple_choice'' then
        js_set (js_set base ''options'' (options_or_empty q)) ''correct_answer''
          (correct_texts q)
      else if mappedType q = ''true_false'' then
        js_set base ''correct_answer''
          (JStr (if q_correctAnswer q = KNum 0 then ''true'' else ''false''))
      else if mappedType q = ''open_ended'' then
        js_set base ''question_type'' (JStr ''open_ended'')
      else if mappedType q = ''short_answer'' then
        js_set base ''question_type'' (JStr ''short_answer'')
      else base)"

section \<open>The outside world of the publisher\<close>

text \<open>
  \<open>await fetch(...)\<close> either rejects (\<open>NetworkError\<close>, an exception at the call) or
  yields a response with its \<open>ok\<close> flag and its body; the body is \<open>None\<close> when it is not
  JSON, so that \<open>response.json()\<close> throws.
\<close>

datatype fetch_result = NetworkError | HttpResponse bool "jsval option"

datatype endpoint =
    Courses
  | CourseById jsval
  | Topics
  | Lessons
  | LessonById jsval
  | Quizzes
  | QuizQuestions

datatype image_kind = CourseKind | LessonKind

text \<open>
  What a run does to the outside, in order: a POST to the LMS with its JSON body, a call
  of \<open>generateFeaturedImage\<close> (type, title, description), a call of
  \<open>uploadImageToWordPress\<close> (image URL, title), and the chat completion of the
  synthesis stage, of which the training material put into the prompt is recorded.
\<close>

datatype call =
    LmsPost endpoint jsval
  | GenerateImage image_kind string string
  | UploadImage string string
  | ChatCompletion string

text \<open>
  A computation returns the calls it made and either the exception it threw or its value.
\<close>

type_synonym 'a traced = "call list \<times> (exn + 'a)"

definition and_then :: "'a traced \<Rightarrow> ('a \<Rightarrow> 'b traced) \<Rightarrow> 'b traced" where
  "and_then m f =
     (case m of
        (cs, Inl e) \<Rightarrow> (cs, Inl e)
      | (cs, Inr a) \<Rightarrow> (case f a of (cs', r) \<Rightarrow> (cs @ cs', r)))"

text \<open>
  \<open>for (const x of xs) { ... }\<close>: the body runs on each element in order, with the
  position of the element; a body that ends early (\<open>continue\<close>) has returned, a body that
  throws ends the loop.
\<close>

fun for_each :: "(nat \<Rightarrow> 'a \<Rightarrow> unit traced) \<Rightarrow> nat \<Rightarrow> 'a list \<Rightarrow> unit traced" where
  "for_each body i [] = ([], Inr ())"
| "for_each body i (x # xs) = and_then (body i x) (\<lambda>u. for_each body (Suc i) xs)"

record config =
  baseUrl :: string
  consumerKey :: string
  consumerSecret :: string

text \<open>
  The nodes of the tree by position: the course, topic \<open>t\<close>, lesson \<open>l\<close> of topic \<open>t\<close>.
  Every call of a run is made for one position, at most once, so the answers of the
  outside are functions of the position: the replies of the LMS to the create-calls, the
  image URL of the image backend (\<open>None\<close> when the call throws or returns no URL), the
  media id of the upload (\<open>None\<close> when the download or the upload fails), and the reply to
  the call that sets the thumbnail.
\<close>

datatype image_subject = CourseImage | LessonImage nat nat

record lms_world =
  w_course :: fetch_result
  w_topic :: "nat \<Rightarrow> fetch_result"
  w_lesson :: "nat \<Rightarrow> nat \<Rightarrow> fetch_result"
  w_quiz :: "nat \<Rightarrow> fetch_result"
  w_question :: "nat \<Rightarrow> nat \<Rightarrow> fetch_result"
  w_dalle :: "image_subject \<Rightarrow> string option"
  w_media :: "image_subject \<Rightarrow> jsval option"
  w_thumbnail :: "image_subject \<Rightarrow> fetch_result"

section \<open>Payloads of the create-calls\<close>

text \<open>\<open>xs.join(sep)\<close>, and \<open>xs.join('\n')\<close>\<close>

fun join_with :: "string \<Rightarrow> string list \<Rightarrow> string" where
  "join_with sep [] = []"
| "join_with sep [x] = x"
| "join_with sep (x # y # ys) = x @ sep @ join_with sep (y # ys)"

definition join_lines :: "string list \<Rightarrow> string" where
  "join_lines xs = join_with [CHR 0x0A] xs"

text \<open>\<open>xs?.join('\n') || ''\<close>\<close>

definition joined_or_empty :: "string list option \<Rightarrow> string" where
  "joined_or_empty xs = (case xs of None \<Rightarrow> [] | Some ys \<Rightarrow> join_lines ys)"

text \<open>\<open>a || b\<close> on an optional string and a string.\<close>

definition str_or :: "string option \<Rightarrow> string \<Rightarrow> string" where
  "str_or a b = (case a of None \<Rightarrow> b | Some s \<Rightarrow> if s = [] then b else s)"

definition courseData :: "course \<Rightarrow> jsval" where
  "courseData c =
     JObj [(''post_title'', JStr (c_title c)),
           (''post_content'', JStr (c_description c)),
           (''post_status'', JStr ''draft''),
           (''post_author'', JNum 1),
           (''course_level'', JStr (c_difficulty c)),
           (''course_duration'',
              JObj [(''hours'',
                       JNum (case c_duration c of
                               None \<Rightarrow> 3
                             | Some d \<Rightarrow> if d = 0 then 3 else d)),
                    (''minutes'', JNum 0)]),
           (''course_overview'', JStr (str_or (c_overview c) (c_description c))),
           (''course_benefits'', JStr (joined_or_empty (c_learningObjectives c))),
           (''course_target_audience'', JStr (joined_or_empty (c_targetAudience c))),
           (''course_requirements'', JStr (joined_or_empty (c_requirements c))),
           (''course_material_includes'', JStr (joined_or_empty (c_materialsIncluded c)))]"

definition topicPayload :: "jsval \<Rightarrow> topic \<Rightarrow> jsval" where
  "topicPayload courseId tp =
     JObj [(''topic_title'', JStr (t_title tp)),
           (''topic_summary'', JStr (t_summary tp)),
           (''topic_course_id'', courseId),
           (''topic_author'', JNum 1)]"

definition lessonPayload :: "jsval \<Rightarrow> lesson \<Rightarrow> jsval" where
  "lessonPayload topicId ls =
     JObj [(''topic_id'', topicId),
           (''lesson_title'', JStr (l_title ls)),
           (''lesson_content'', JStr (l_content ls)),
           (''lesson_author'', JNum 1)]"

definition quizPayload :: "jsval \<Rightarrow> quiz \<Rightarrow> jsval" where
  "quizPayload topicId qz =
     JObj [(''topic_id'', topicId),
           (''quiz_title'', JStr (qz_title qz)),
           (''quiz_author'', JNum 1),
           (''quiz_description'', JStr (str_or_empty (qz_description qz))),
           (''quiz_options'',
              JObj [(''time_limit'',
                       JObj [(''time_value'', JNum 45), (''time_type'', JStr ''minutes'')]),
                    (''feedback_mode'', JStr ''default''),
                    (''question_layout_view'', JStr ''question_below_each_other''),
                    (''attempts_allowed'', JNum 3),
                    (''passing_grade'', JNum 70),
                    (''max_questions_for_answer'', JNum (int (length (qz_questions qz)))),
                    (''questions_order'', JStr ''rand''),
                    (''short_answer_characters_limit'', JNum 500),
                    (''open_ended_answer_characters_limit'', JNum 1000)])]"

section \<open>Images\<close>

text \<open>
  \<open>generateFeaturedImage\<close> catches everything it throws: it returns
  \<open>{success: true, imageUrl}\<close> with a URL that is not empty, or \<open>{success: false}\<close>.
\<close>

datatype image_result = ImageFailed | ImageOk string

definition generateFeaturedImage :: "lms_world \<Rightarrow> image_subject \<Rightarrow> image_result" where
  "generateFeaturedImage w subj =
     (case w_dalle w subj of
        None \<Rightarrow> ImageFailed
      | Some url \<Rightarrow> if url = [] then ImageFailed else ImageOk url)"

text \<open>
  The image stage as \<open>createCourseInTutorLMS\<close> writes it out twice, for the course
  (Step 1.5) and for each lesson: generate the image; when that succeeded with a URL,
  upload it; when that succeeded with a media id, POST the id as \<open>thumbnail_id\<close> to the
  node. Only a rejected \<open>fetch\<close> of the last call throws.
\<close>

definition attach_image ::
  "lms_world \<Rightarrow> image_subject \<Rightarrow> image_kind \<Rightarrow> string \<Rightarrow> string \<Rightarrow> string \<Rightarrow> endpoint
     \<Rightarrow> unit traced" where
  "attach_image w subj kind title description uploadTitle target =
     (case generateFeaturedImage w subj of
        ImageFailed \<Rightarrow> ([GenerateImage kind title description], Inr ())
      | ImageOk url \<Rightarrow>
          if url = [] then ([GenerateImage kind title description], Inr ())
          else
            (case w_media w subj of
               None \<Rightarrow>
                 ([GenerateImage kind title description, UploadImage url uploadTitle], Inr ())
             | Some mediaId \<Rightarrow>
                 if \<not> truthy mediaId then
                   ([GenerateImage kind title description, UploadImage url uploadTitle],
                    Inr ())
                 else
                   ([GenerateImage kind title description, UploadImage url uploadTitle,
                     LmsPost target (JObj [(''thumbnail_id'', mediaId)])],
                    case w_thumbnail w subj of
                      NetworkError \<Rightarrow> Inl FetchFailed
                    | HttpResponse ok b \<Rightarrow> Inr ())))"

section \<open>The publisher\<close>

text \<open>
  A create-call for a topic, a lesson or a quiz, which the source writes out three times
  in the same shape: POST the payload; a response that is not \<open>ok\<close> is logged and the
  node is given up (\<open>continue\<close>, here \<open>None\<close>); otherwise the reply is parsed and the
  identifier extracted, and a falsy identifier gives the node up as well.
\<close>

definition create_node :: "endpoint \<Rightarrow> jsval \<Rightarrow> fetch_result \<Rightarrow> jsval option traced" where
  "create_node ep body r =
     ([LmsPost ep body],
      case r of
        NetworkError \<Rightarrow> Inl FetchFailed
      | HttpResponse ok b \<Rightarrow>
          if \<not> ok then Inr None
          else
            (case b of
               None \<Rightarrow> Inl JsonSyntaxError
             | Some v \<Rightarrow>
                 (case extract_id v of
                    Inl e \<Rightarrow> Inl e
                  | Inr i \<Rightarrow> if truthy i then Inr (Some i) else Inr None)))"

text \<open>The body of \<open>for (const question of topic.quiz.questions)\<close>.\<close>

definition question_step :: "lms_world \<Rightarrow> jsval \<Rightarrow> nat \<Rightarrow> nat \<Rightarrow> question \<Rightarrow> unit traced" where
  "question_step w quizId t j q =
     ([LmsPost QuizQuestions (JObj (questionData quizId q))],
      case w_question w t j of
        NetworkError \<Rightarrow> Inl FetchFailed
      | HttpResponse ok b \<Rightarrow>
          if ok then (case b of None \<Rightarrow> Inl JsonSyntaxError | Some v \<Rightarrow> Inr ())
          else Inr ())"

text \<open>The body of \<open>for (const lesson of topic.lessons)\<close>.\<close>

definition lesson_step :: "lms_world \<Rightarrow> jsval \<Rightarrow> nat \<Rightarrow> nat \<Rightarrow> lesson \<Rightarrow> unit traced" where
  "lesson_step w topicId t l ls =
     and_then (create_node Lessons (lessonPayload topicId ls) (w_lesson w t l))
       (\<lambda>created.
          case created of
            None \<Rightarrow> ([], Inr ())
          | Some lessonId \<Rightarrow>
              attach_image w (LessonImage t l) LessonKind (l_title ls)
                (str_or (l_imageDescription ls) (l_title ls))
                (l_title ls @ '' - Lesson Image'') (LessonById lessonId))"

text \<open>
  The body of \<open>for (const topic of courseStructure.topics)\<close>: the topic, its lessons, then
  its quiz and the questions of the quiz.
\<close>

definition topic_step :: "lms_world \<Rightarrow> jsval \<Rightarrow> nat \<Rightarrow> topic \<Rightarrow> unit traced" where
  "topic_step w courseId t tp =
     and_then (create_node Topics (topicPayload courseId tp) (w_topic w t))
       (\<lambda>created.
          case created of
            None \<Rightarrow> ([], Inr ())
          | Some topicId \<Rightarrow>
              and_then (for_each (lesson_step w topicId t) 0 (t_lessons tp))
                (\<lambda>u. case t_quiz tp of
                       None \<Rightarrow> ([], Inr ())
                     | Some qz \<Rightarrow>
                         and_then (create_node Quizzes (quizPayload topicId qz) (w_quiz w t))
                           (\<lambda>createdQuiz.
                              case createdQuiz of
                                None \<Rightarrow> ([], Inr ())
                              | Some quizId \<Rightarrow>
                                  for_each (question_step w quizId t) 0 (qz_questions qz))))"

text \<open>
  \<open>title.toLowerCase().replace(/[^a-z0-9]+/g, '-')\<close> on ASCII text: every maximal run of
  characters other than lower-case letters and digits becomes one hyphen.
\<close>

definition toLowerCase :: "char \<Rightarrow> char" where
  "toLowerCase c =
     (case map_of (zip ''ABCDEFGHIJKLMNOPQRSTUVWXYZ'' ''abcdefghijklmnopqrstuvwxyz'') c of
        None \<Rightarrow> c
      | Some lower \<Rightarrow> lower)"

definition is_slug_char :: "char \<Rightarrow> bool" where
  "is_slug_char c = (c \<in> set ''abcdefghijklmnopqrstuvwxyz0123456789'')"

fun hyphenate :: "bool \<Rightarrow> string \<Rightarrow> string" where
  "hyphenate in_run [] = []"
| "hyphenate in_run (c # cs) =
     (if is_slug_char c then c # hyphenate False cs
      else if in_run then hyphenate True cs
      else CHR ''-'' # hyphenate True cs)"

definition slugify :: "string \<Rightarrow> string" where
  "slugify title = hyphenate False (map toLowerCase title)"

record statistics =
  totalTopics :: nat
  totalLessons :: nat
  totalQuizzes :: nat

datatype publish_result =
    PublishFailed exn
  | PublishOk jsval string statistics

text \<open>The \<open>statistics\<close> object of the value that \<open>createCourseInTutorLMS\<close> returns.\<close>

definition publish_statistics :: "course_structure \<Rightarrow> statistics" where
  "publish_statistics cs =
     \<lparr>totalTopics = length (cs_topics cs),
      totalLessons = foldl (\<lambda>sum tp. sum + length (t_lessons tp)) 0 (cs_topics cs),
      totalQuizzes = length (filter (\<lambda>tp. t_quiz tp \<noteq> None) (cs_topics cs))\<rparr>"

text \<open>
  Step 1, the course create-call: a response that is not \<open>ok\<close> throws, as does a reply
  that cannot be parsed; the identifier is read off the parsed reply. The message of the
  error thrown on a refused call also carries the status and the reply text in the
  source; they are left out here.
\<close>

definition create_course :: "lms_world \<Rightarrow> course_structure \<Rightarrow> jsval traced" where
  "create_course w cs =
     ([LmsPost Courses (courseData (cs_course cs))],
      case w_course w of
        NetworkError \<Rightarrow> Inl FetchFailed
      | HttpResponse ok b \<Rightarrow>
          if \<not> ok then Inl (Error ''Failed to create course'')
          else (case b of None \<Rightarrow> Inl JsonSyntaxError | Some v \<Rightarrow> courseId_of v))"

text \<open>
  The \<open>try\<close> block of \<open>createCourseInTutorLMS\<close> up to the \<open>return\<close>: its value is the
  course identifier. The second parameter has the default \<open>true\<close>, which JavaScript takes
  when the argument is \<open>undefined\<close>. Step 1.5, the featured image of the course, runs
  under \<open>if (shouldGenerateImages === true)\<close>.
\<close>

definition course_image_stage ::
  "lms_world \<Rightarrow> course_structure \<Rightarrow> jsval \<Rightarrow> jsval \<Rightarrow> unit traced" where
  "course_image_stage w cs shouldGenerateImages courseId =
     (if shouldGenerateImages = JBool True then
        attach_image w CourseImage CourseKind (c_title (cs_course cs))
          (c_description (cs_course cs))
          (c_title (cs_course cs) @ '' - Featured Image'')
          (CourseById courseId)
      else ([], Inr ()))"

definition publish_body :: "config \<Rightarrow> lms_world \<Rightarrow> course_structure \<Rightarrow> jsval \<Rightarrow> jsval traced" where
  "publish_body cfg w cs flagArg =
     (let shouldGenerateImages = (if flagArg = JUndefined then JBool True else flagArg) in
      if baseUrl cfg = [] \<or> consumerKey cfg = [] \<or> consumerSecret cfg = [] then
        ([], Inl (Error ''Missing Tutor LMS configuration''))
      else
        and_then (create_course w cs)
          (\<lambda>courseId.
             and_then (course_image_stage w cs shouldGenerateImages courseId)
               (\<lambda>u. and_then (for_each (topic_step w courseId) 0 (cs_topics cs))
                      (\<lambda>u'. ([], Inr courseId)))))"

text \<open>
  \<open>createCourseInTutorLMS\<close>: the calls made, and the returned object. The \<open>catch\<close> around
  the whole body turns every exception into \<open>{success: false}\<close>.
\<close>

definition createCourseInTutorLMS ::
  "config \<Rightarrow> lms_world \<Rightarrow> course_structure \<Rightarrow> jsval \<Rightarrow> call list \<times> publish_result" where
  "createCourseInTutorLMS cfg w cs flagArg =
     (case publish_body cfg w cs flagArg of
        (calls, Inl e) \<Rightarrow> (calls, PublishFailed e)
      | (calls, Inr courseId) \<Rightarrow>
          (calls,
           PublishOk courseId
             (baseUrl cfg @ ''course/'' @ slugify (c_title (cs_course cs)) @ ''/'')
             (publish_statistics cs)))"

section \<open>Retrieval\<close>

text \<open>
  A match of the vector index. The score is a double; it is modelled by the rational it
  denotes, and the threshold \<open>0.3\<close> by \<open>3/10\<close>: no double lies between \<open>3/10\<close> and the
  double that the literal \<open>0.3\<close> denotes, so the comparison is the same on every double.
  Text lengths are counted in characters of \<open>string\<close>.
\<close>

record pinecone_metadata =
  md_text :: "string option"
  md_content :: "string option"
  md_file_name :: "string option"
  md_fileName :: "string option"
  md_source :: "string option"
  md_file_id :: "string option"
  md_mime_type :: "string option"
  md_mimeType :: "string option"

record pinecone_match =
  m_id :: "string option"
  m_score :: "rat option"
  m_metadata :: "pinecone_metadata option"

record course_content =
  cc_text :: string
  cc_fileName :: string
  cc_score :: rat
  cc_fileId :: string
  cc_mimeType :: string

text \<open>\<open>match.metadata?.field\<close>\<close>

definition md :: "pinecone_match \<Rightarrow> (pinecone_metadata \<Rightarrow> string option) \<Rightarrow> string option" where
  "md m field = (case m_metadata m of None \<Rightarrow> None | Some d \<Rightarrow> field d)"

text \<open>\<open>match.score || 0\<close>\<close>

definition score_or_zero :: "pinecone_match \<Rightarrow> rat" where
  "score_or_zero m = (case m_score m of None \<Rightarrow> 0 | Some x \<Rightarrow> x)"

text \<open>
  The mapping and the filter of \<open>queryPineconeContent\<close> (the helper that the pipeline
  calls): \<open>queryResponse.matches.map(...).filter(c => c.text.length > 0)\<close>.
\<close>

definition to_content :: "pinecone_match \<Rightarrow> course_content" where
  "to_content m =
     \<lparr>cc_text = str_or (md m md_text) (str_or (md m md_content) []),
      cc_fileName =
        str_or (md m md_file_name) (str_or (md m md_fileName) (str_or (md m md_source) ''Unknown'')),
      cc_score = score_or_zero m,
      cc_fileId = str_or (m_id m) [],
      cc_mimeType = str_or (md m md_mime_type) (str_or (md m md_mimeType) [])\<rparr>"

definition allContent_of :: "pinecone_match list \<Rightarrow> course_content list" where
  "allContent_of matches = filter (\<lambda>c. length (cc_text c) > 0) (map to_content matches)"

text \<open>
  Whatever \<open>queryPineconeContent\<close> throws (the clients cannot be built, the embedding or
  the query fails, the reply has no \<open>matches\<close>) is caught and returned as
  \<open>{success: false, message: 'Failed to query content'}\<close>.
\<close>

datatype pinecone_outcome = BackendThrows | QueryResponse "pinecone_match list option"

datatype query_result = QueryFailed string | QueryOk "course_content list" nat

definition queryPineconeContent :: "pinecone_outcome \<Rightarrow> query_result" where
  "queryPineconeContent backend =
     (case backend of
        BackendThrows \<Rightarrow> QueryFailed ''Failed to query content''
      | QueryResponse None \<Rightarrow> QueryFailed ''Failed to query content''
      | QueryResponse (Some matches) \<Rightarrow>
          QueryOk (allContent_of matches) (length (allContent_of matches)))"

text \<open>
  The stand-alone query route (\<open>POST\<close> of the course-content query): the matches are
  filtered by \<open>match.score && match.score > 0.3\<close>, mapped, and filtered by
  \<open>content.text.length > 50\<close>.
\<close>

definition relevant :: "pinecone_match \<Rightarrow> bool" where
  "relevant m = (case m_score m of None \<Rightarrow> False | Some x \<Rightarrow> x \<noteq> 0 \<and> x > 3 / 10)"

definition route_content :: "pinecone_match \<Rightarrow> course_content" where
  "route_content m =
     \<lparr>cc_text = str_or (md m md_text) [],
      cc_fileName = str_or (md m md_file_name) ''Unknown'',
      cc_score = score_or_zero m,
      cc_fileId = str_or (md m md_file_id) [],
      cc_mimeType = str_or (md m md_mime_type) []\<rparr>"

definition relevantContent :: "pinecone_match list \<Rightarrow> course_content list" where
  "relevantContent matches =
     filter (\<lambda>c. length (cc_text c) > 50) (map route_content (filter relevant matches))"

section \<open>Synthesis\<close>

text \<open>
  The part of the prompt made from the retrieved chunks, with the text that stands in
  when there is none.
\<close>

definition contentText :: "course_content list \<Rightarrow> string" where
  "contentText allContent =
     (if allContent \<noteq> [] then
        join_with ([CHR 0x0A, CHR 0x0A] @ ''---'' @ [CHR 0x0A, CHR 0x0A])
          (map (\<lambda>c. ''From '' @ cc_fileName c @ '': '' @ cc_text c) allContent)
      else
        ''No specific training materials found. Generate comprehensive content based on industry best practices and OSHA standards.'')"

text \<open>
  The completion either throws or returns a reply, which \<open>JSON.parse\<close> rejects or turns
  into an object whose \<open>course\<close> and \<open>topics\<close> may be missing.
\<close>

datatype parsed_reply = NotJson | Parsed "course option" "topic list option"

datatype llm_outcome = LlmThrows | LlmReply parsed_reply

record gen_statistics =
  gs_totalTopics :: nat
  gs_totalLessons :: nat
  gs_totalQuizzes :: nat
  gs_totalQuestions :: nat
  gs_totalTags :: nat

datatype generate_result = GenerateFailed string | GenerateOk course_structure gen_statistics

definition gen_statistics_of :: "course_structure \<Rightarrow> gen_statistics" where
  "gen_statistics_of cs =
     \<lparr>gs_totalTopics = length (cs_topics cs),
      gs_totalLessons = foldl (\<lambda>sum tp. sum + length (t_lessons tp)) 0 (cs_topics cs),
      gs_totalQuizzes = length (filter (\<lambda>tp. t_quiz tp \<noteq> None) (cs_topics cs)),
      gs_totalQuestions =
        foldl (\<lambda>sum tp. sum + (case t_quiz tp of None \<Rightarrow> 0 | Some qz \<Rightarrow> length (qz_questions qz)))
          0 (cs_topics cs),
      gs_totalTags = (case c_tags (cs_course cs) of None \<Rightarrow> 0 | Some tags \<Rightarrow> length tags)\<rparr>"

text \<open>
  \<open>generateEnhancedCourse\<close>, given whether the API key is set and what the completion
  does: the calls made and the returned object.
\<close>

definition generateEnhancedCourse ::
  "bool \<Rightarrow> llm_outcome \<Rightarrow> course_content list \<Rightarrow> call list \<times> generate_result" where
  "generateEnhancedCourse openaiApiKey llm allContent =
     (if \<not> openaiApiKey then ([], GenerateFailed ''Missing OpenAI API key'')
      else
        ([ChatCompletion (contentText allContent)],
         case llm of
           LlmThrows \<Rightarrow> GenerateFailed ''Failed to generate enhanced course structure''
         | LlmReply NotJson \<Rightarrow> GenerateFailed ''Failed to parse generated course structure''
         | LlmReply (Parsed None tps) \<Rightarrow> GenerateFailed ''Invalid course structure generated''
         | LlmReply (Parsed (Some c) None) \<Rightarrow> GenerateFailed ''Invalid course structure generated''
         | LlmReply (Parsed (Some c) (Some tps)) \<Rightarrow>
             GenerateOk \<lparr>cs_course = c, cs_topics = tps\<rparr>
               (gen_statistics_of \<lparr>cs_course = c, cs_topics = tps\<rparr>)))"

section \<open>The progress stream and the pipeline\<close>

datatype event_type = Status | Progress | ErrorEvent | Complete

text \<open>
  The messages of the events, without their pictographs; the numbers interpolated into a
  message are kept as numbers.
\<close>

datatype message =
    Text string
  | FoundDocuments nat
  | GeneratedCounts nat nat nat
  | CreationFailed string

text \<open>The \<open>course\<close> object of the \<open>complete\<close> event.\<close>

record created_course =
  cr_id :: jsval
  cr_title :: string
  cr_permalink :: string
  cr_statistics :: gen_statistics

record event =
  e_type :: event_type
  e_step :: string
  e_progress :: int
  e_message :: message
  e_course :: "created_course option"

text \<open>
  The state of one run: what has been enqueued on the stream controller, whether the
  controller is closed, and the calls made to the outside.
\<close>

record run_state =
  enqueued :: "event list"
  is_closed :: bool
  invoked :: "call list"

type_synonym 'a stream_io = "run_state \<Rightarrow> run_state \<times> (exn + 'a)"

definition bind_io :: "'a stream_io \<Rightarrow> ('a \<Rightarrow> 'b stream_io) \<Rightarrow> 'b stream_io" where
  "bind_io m f s = (case m s of (s', Inl e) \<Rightarrow> (s', Inl e) | (s', Inr a) \<Rightarrow> f a s')"

definition throw :: "exn \<Rightarrow> 'a stream_io" where
  "throw e s = (s, Inl e)"

text \<open>\<open>controller.enqueue\<close> and \<open>controller.close\<close> throw on a closed controller.\<close>

definition enqueue :: "event \<Rightarrow> unit stream_io" where
  "enqueue ev s =
     (if is_closed s then (s, Inl TypeError) else (s\<lparr>enqueued := enqueued s @ [ev]\<rparr>, Inr ()))"

definition close :: "unit stream_io" where
  "close s = (if is_closed s then (s, Inl TypeError) else (s\<lparr>is_closed := True\<rparr>, Inr ()))"

definition record_calls :: "call list \<Rightarrow> unit stream_io" where
  "record_calls cs s = (s\<lparr>invoked := invoked s @ cs\<rparr>, Inr ())"

definition progress_event :: "string \<Rightarrow> int \<Rightarrow> message \<Rightarrow> event" where
  "progress_event step progress msg =
     \<lparr>e_type = Progress, e_step = step, e_progress = progress, e_message = msg,
      e_course = None\<rparr>"

definition sendProgress :: "string \<Rightarrow> int \<Rightarrow> message \<Rightarrow> unit stream_io" where
  "sendProgress step progress msg = enqueue (progress_event step progress msg)"

text \<open>The request body, and everything outside the run.\<close>

record course_request =
  r_title :: string
  r_description :: string
  r_difficulty :: string
  r_generateFeaturedImage :: jsval

record pipeline_world =
  pw_pinecone :: pinecone_outcome
  pw_openaiApiKey :: bool
  pw_llm :: llm_outcome
  pw_config :: config
  pw_lms :: lms_world

definition exn_message :: "exn \<Rightarrow> string" where
  "exn_message e =
     (case e of
        Error m \<Rightarrow> m
      | TypeError \<Rightarrow> ''TypeError''
      | FetchFailed \<Rightarrow> ''fetch failed''
      | JsonSyntaxError \<Rightarrow> ''SyntaxError'')"

definition complete_event :: "jsval \<Rightarrow> string \<Rightarrow> string \<Rightarrow> gen_statistics \<Rightarrow> event" where
  "complete_event courseId title permalink stats =
     \<lparr>e_type = Complete, e_step = ''completed'', e_progress = 100,
      e_message = Text ''Comprehensive course created successfully!'',
      e_course = Some \<lparr>cr_id = courseId, cr_title = title, cr_permalink = permalink,
                         cr_statistics = stats\<rparr>\<rparr>"

text \<open>
  The \<open>try\<close> block of \<open>executeCourseCreation\<close>. The statistics of the \<open>complete\<close>
  event are those of the synthesis stage.
\<close>

definition try_block :: "course_request \<Rightarrow> pipeline_world \<Rightarrow> unit stream_io" where
  "try_block req world =
     bind_io (sendProgress ''querying_pinecone'' 10
                (Text ''Searching knowledge base for relevant content...''))
       (\<lambda>u. case queryPineconeContent (pw_pinecone world) of
          QueryFailed m \<Rightarrow> throw (Error m)
        | QueryOk allContent totalFound \<Rightarrow>
     bind_io (sendProgress ''content_found'' 20 (FoundDocuments totalFound))
       (\<lambda>u.
     bind_io (sendProgress ''generating_content'' 30
                (Text ''Generating comprehensive course structure and content...''))
       (\<lambda>u. case generateEnhancedCourse (pw_openaiApiKey world) (pw_llm world) allContent of
          (llmCalls, generateResult) \<Rightarrow>
     bind_io (record_calls llmCalls)
       (\<lambda>u. case generateResult of
          GenerateFailed m \<Rightarrow> throw (Error m)
        | GenerateOk courseStructure stats \<Rightarrow>
     bind_io (sendProgress ''content_generated'' 50
                (GeneratedCounts (gs_totalTopics stats) (gs_totalLessons stats)
                   (gs_totalQuizzes stats)))
       (\<lambda>u.
     bind_io (sendProgress ''creating_course'' 60
                (Text ''Creating comprehensive course in Tutor LMS...''))
       (\<lambda>u. case createCourseInTutorLMS (pw_config world) (pw_lms world) courseStructure
                  (r_generateFeaturedImage req) of
          (lmsCalls, tutorResult) \<Rightarrow>
     bind_io (record_calls lmsCalls)
       (\<lambda>u. case tutorResult of
          PublishFailed e \<Rightarrow> throw (Error ''Failed to create course in Tutor LMS'')
        | PublishOk courseId permalink publishStats \<Rightarrow>
     bind_io (sendProgress ''course_created'' 80
                (Text ''Comprehensive course created successfully in Tutor LMS''))
       (\<lambda>u.
     bind_io (sendProgress ''finalizing'' 90
                (Text ''Finalizing course setup with all content...''))
       (\<lambda>u.
     bind_io (enqueue (complete_event courseId (r_title req) permalink stats))
       (\<lambda>u. close))))))))))"

text \<open>The \<open>catch\<close> block: the error event, then the controller is closed.\<close>

definition error_event :: "exn \<Rightarrow> event" where
  "error_event e =
     \<lparr>e_type = ErrorEvent, e_step = ''error'', e_progress = 0,
      e_message = CreationFailed (exn_message e), e_course = None\<rparr>"

definition catch_block :: "exn \<Rightarrow> unit stream_io" where
  "catch_block e = bind_io (enqueue (error_event e)) (\<lambda>u. close)"

definition executeCourseCreation :: "course_request \<Rightarrow> pipeline_world \<Rightarrow> unit stream_io" where
  "executeCourseCreation req world s =
     (case try_block req world s of
        (s', Inr u) \<Rightarrow> (s', Inr u)
      | (s', Inl e) \<Rightarrow> catch_block e s')"

text \<open>
  \<open>POST\<close>, once the request body is read: the stream starts with the status event, then
  the pipeline runs on its controller. The value is the final state of the run.
\<close>

definition initial_event :: event where
  "initial_event =
     \<lparr>e_type = Status, e_step = ''initializing'', e_progress = 0,
      e_message = Text ''Starting course creation process...'', e_course = None\<rparr>"

definition POST :: "course_request \<Rightarrow> pipeline_world \<Rightarrow> run_state" where
  "POST req world =
     fst (executeCourseCreation req world
            \<lparr>enqueued = [initial_event], is_closed = False, invoked = []\<rparr>)"

text \<open>The events that end a run.\<close>

definition terminal :: "event \<Rightarrow> bool" where
  "terminal ev = (e_type ev = Complete \<or> e_type ev = ErrorEvent)"

section \<open>Kinds of replies\<close>


text \<open>
  A call is answered when nothing is thrown at it: the \<open>fetch\<close> is not rejected, and an
  \<open>ok\<close> response carries a JSON body other than \<open>null\<close>.
\<close>

fun answered :: "fetch_result \<Rightarrow> bool" where
  "answered NetworkError = False"
| "answered (HttpResponse ok b) =
     (\<not> ok \<or> (case b of None \<Rightarrow> False | Some v \<Rightarrow> v \<noteq> JNull \<and> v \<noteq> JUndefined))"

text \<open>The calls that ask for the featured image of the course.\<close>

fun is_course_image :: "call \<Rightarrow> bool" where
  "is_course_image (GenerateImage CourseKind title description) = True"
| "is_course_image c = False"

section \<open>Example runs\<close>

definition q_single :: question where
  "q_single =
     \<lparr>q_type = Some ''single_choice'', q_question = ''Which anchor is rated?'',
      q_options = Some [''A'', ''B'', ''C''], q_correctAnswer = KNum 2,
      q_correctAnswers = None, q_explanation = Some ''See the standard''\<rparr>"

text \<open>A single-choice question whose chosen option, the second one, has an empty text.\<close>

definition q_blank :: question where
  "q_blank =
     \<lparr>q_type = Some ''single_choice'', q_question = ''Which one?'',
      q_options = Some [''A'', []], q_correctAnswer = KNum 1,
      q_correctAnswers = None, q_explanation = None\<rparr>"

text \<open>The same options and the same chosen index in a multiple-choice question.\<close>

definition q_blank_multiple :: question where
  "q_blank_multiple =
     \<lparr>q_type = Some ''multiple_choice'', q_question = ''Which ones?'',
      q_options = Some [''A'', []], q_correctAnswer = KAbsent,
      q_correctAnswers = Some [1], q_explanation = None\<rparr>"

definition q_true_false :: question where
  "q_true_false =
     \<lparr>q_type = Some ''true_false'', q_question = ''Harnesses expire.'',
      q_options = None, q_correctAnswer = KNum 0,
      q_correctAnswers = None, q_explanation = None\<rparr>"

definition q_open :: question where
  "q_open =
     \<lparr>q_type = Some ''open_ended'', q_question = ''Describe a rescue plan.'',
      q_options = None, q_correctAnswer = KAbsent,
      q_correctAnswers = None, q_explanation = Some ''Key points''\<rparr>"

definition cfg0 :: config where
  "cfg0 = \<lparr>baseUrl = ''https://lms.example/'', consumerKey = ''key'', consumerSecret = ''secret''\<rparr>"

definition lesson_a :: lesson where
  "lesson_a = \<lparr>l_title = ''Anchors'', l_content = ''Text'', l_imageDescription = None\<rparr>"

definition quiz_a :: quiz where
  "quiz_a = \<lparr>qz_title = ''Quiz'', qz_description = None, qz_questions = [q_single]\<rparr>"

definition quiz_long :: quiz where
  "quiz_long =
     \<lparr>qz_title = ''Long quiz'', qz_description = None,
      qz_questions = [q_single, q_true_false, q_open]\<rparr>"

definition topic_a :: topic where
  "topic_a =
     \<lparr>t_title = ''Harnesses'', t_summary = ''S'', t_lessons = [lesson_a], t_quiz = Some quiz_a\<rparr>"

definition topic_b :: topic where
  "topic_b =
     \<lparr>t_title = ''Ladders'', t_summary = ''S'', t_lessons = [lesson_a], t_quiz = None\<rparr>"

definition course_a :: course where
  "course_a =
     \<lparr>c_title = ''Fall Protection Basics'', c_description = ''D'', c_difficulty = ''beginner'',
      c_duration = None, c_overview = None, c_learningObjectives = None,
      c_targetAudience = None, c_requirements = None, c_materialsIncluded = None,
      c_tags = None\<rparr>"

definition cs_a :: course_structure where
  "cs_a = \<lparr>cs_course = course_a, cs_topics = [topic_a, topic_b]\<rparr>"

text \<open>
  An LMS that creates everything, with replies in all three shapes, and an image backend
  that is down.
\<close>

definition w_up :: lms_world where
  "w_up =
     \<lparr>w_course = HttpResponse True (Some (JObj [(''data'', JNum 5)])),
      w_topic =
        (\<lambda>t. HttpResponse True (Some (JObj [(''data'', JObj [(''id'', JNum (10 + int t))])]))),
      w_lesson = (\<lambda>t l. HttpResponse True (Some (JObj [(''id'', JNum (100 + int l))]))),
      w_quiz = (\<lambda>t. HttpResponse True (Some (JObj [(''data'', JNum 50)]))),
      w_question = (\<lambda>t j. HttpResponse True (Some (JObj []))),
      w_dalle = (\<lambda>subj. None),
      w_media = (\<lambda>subj. None),
      w_thumbnail = (\<lambda>subj. HttpResponse True None)\<rparr>"

text \<open>The same LMS, refusing every quiz; refusing every topic; unreachable for topics.\<close>

definition w_quizzes_fail :: lms_world where
  "w_quizzes_fail = w_up\<lparr>w_quiz := (\<lambda>t. HttpResponse False None)\<rparr>"

definition w_topics_fail :: lms_world where
  "w_topics_fail = w_up\<lparr>w_topic := (\<lambda>t. HttpResponse False None)\<rparr>"

definition w_topic_unreachable :: lms_world where
  "w_topic_unreachable = w_up\<lparr>w_topic := (\<lambda>t. NetworkError)\<rparr>"

text \<open>An LMS as \<open>w_up\<close> with an image backend that works for lessons.\<close>

definition w_images :: lms_world where
  "w_images =
     w_up\<lparr>w_dalle := (\<lambda>subj. Some ''https://img.example/1.png''),
          w_media := (\<lambda>subj. Some (JNum 900))\<rparr>"

definition req0 :: course_request where
  "req0 =
     \<lparr>r_title = ''Fall Protection Basics'', r_description = ''D'',
      r_difficulty = ''beginner'', r_generateFeaturedImage = JBool False\<rparr>"

text \<open>A run whose vector search is down, and a run whose search finds nothing.\<close>

definition world_down :: pipeline_world where
  "world_down =
     \<lparr>pw_pinecone = BackendThrows, pw_openaiApiKey = True,
      pw_llm = LlmReply (Parsed (Some course_a) (Some [topic_a, topic_b])),
      pw_config = cfg0, pw_lms = w_up\<rparr>"

definition world_no_chunks :: pipeline_world where
  "world_no_chunks = world_down\<lparr>pw_pinecone := QueryResponse (Some [])\<rparr>"

text \<open>A match with the lowest score there is and a text of one character.\<close>

definition match_weak :: pinecone_match where
  "match_weak =
     \<lparr>m_id = None, m_score = Some (- 1),
      m_metadata =
        Some \<lparr>md_text = Some ''x'', md_content = None, md_file_name = None,
              md_fileName = None, md_source = None, md_file_id = None,
              md_mime_type = None, md_mimeType = None\<rparr>\<rparr>"

definition match_strong :: pinecone_match where
  "match_strong =
     \<lparr>m_id = Some ''v1'', m_score = Some (9 / 10),
      m_metadata =
        Some \<lparr>md_text = Some (replicate 60 CHR ''a''), md_content = None,
              md_file_name = Some ''ladders.pdf'', md_fileName = None, md_source = None,
              md_file_id = Some ''f1'', md_mime_type = Some ''application/pdf'',
              md_mimeType = None\<rparr>\<rparr>"

section \<open>Question payloads by kind\<close>

text \<open>
  What \<open>questionData\<close> puts into the payload for each kind of question: the option text
  at the chosen index of a single-choice question when that text is not empty, the array
  of option texts of a multiple-choice question, one of the two literal strings for a
  true/false question, and neither field for an open-ended one.
\<close>

lemmas question_defs =
  questionData_def js_get_def js_set_def js_or_def has_field_def correct_texts_def
  options_or_empty_def Let_def

lemma single_choice_text_at_index:
  assumes "mappedType q = ''single_choice''" "q_options q = Some opts"
    and "q_correctAnswer q = KNum i" "0 \<le> i" "nat i < length opts" "opts ! nat i \<noteq> []"
  shows "js_get (questionData quizId q) ''correct_answer'' = JStr (opts ! nat i)"
  using assms by (simp add: question_defs)

lemma single_choice_options:
  assumes "mappedType q = ''single_choice''" "q_options q = Some opts"
  shows "js_get (questionData quizId q) ''options'' = JArr (map JStr opts)"
  using assms by (simp add: question_defs)

lemma multiple_choice_texts:
  assumes "mappedType q = ''multiple_choice''" "q_options q = Some opts"
    and "q_correctAnswers q = Some idxs" "\<forall>i\<in>set idxs. 0 \<le> i \<and> nat i < length opts"
  shows "js_get (questionData quizId q) ''options'' = JArr (map JStr opts) \<and>
         js_get (questionData quizId q) ''correct_answer'' =
           JArr (map (\<lambda>i. JStr (opts ! nat i)) idxs)"
  using assms by (simp add: question_defs)

lemma true_false_literal:
  assumes "mappedType q = ''true_false''"
  shows "js_get (questionData quizId q) ''correct_answer'' =
           JStr (if q_correctAnswer q = KNum 0 then ''true'' else ''false'')"
  using assms by (simp add: question_defs)

lemma open_ended_bare:
  assumes "mappedType q = ''open_ended''"
  shows "\<not> has_field (questionData quizId q) ''options'' \<and>
         \<not> has_field (questionData quizId q) ''correct_answer''"
  using assms by (simp add: question_defs)

text \<open>
  C1. The payload of a single-choice question is to carry the option text at the chosen
  index. For \<open>q_blank\<close> the chosen option is the second one, whose text is empty; the
  expression \<open>options?.[correctAnswer] || options?.[0]\<close> takes the empty text for a
  missing one and sends the text of the first option. The multiple-choice path, given the
  same options and the same index, sends the empty text of the chosen option.
\<close>

theorem single_choice_blank_option_sends_first:
  "mappedType q_blank = ''single_choice'' \<and>
   q_options q_blank = Some [''A'', []] \<and>
   q_correctAnswer q_blank = KNum 1 \<and>
   js_get (questionData (JNum 50) q_blank) ''correct_answer'' = JStr ''A'' \<and>
   mappedType q_blank_multiple = ''multiple_choice'' \<and>
   q_options q_blank_multiple = Some [''A'', []] \<and>
   q_correctAnswers q_blank_multiple = Some [1] \<and>
   js_get (questionData (JNum 50) q_blank_multiple) ''correct_answer'' = JArr [JStr []]"
  by (simp add: question_defs q_blank_def q_blank_multiple_def mappedType_def)

section \<open>Identifiers under the three reply shapes\<close>

text \<open>
  The expression used for topics, lessons and quizzes reads a non-zero identifier off
  each of the three shapes; the expression used for the course reads it off two of them.
\<close>

lemma extract_id_three_shapes:
  assumes "n \<noteq> 0"
  shows "extract_id (JObj [(''data'', JObj [(''id'', JNum n)])]) = Inr (JNum n)"
    and "extract_id (JObj [(''data'', JNum n)]) = Inr (JNum n)"
    and "extract_id (JObj [(''id'', JNum n)]) = Inr (JNum n)"
  using assms by (simp_all add: extract_id_def js_get_def)

lemma courseId_of_two_shapes:
  assumes "n \<noteq> 0"
  shows "courseId_of (JObj [(''data'', JNum n)]) = Inr (JNum n)"
    and "courseId_of (JObj [(''id'', JNum n)]) = Inr (JNum n)"
  using assms by (simp_all add: courseId_of_def js_get_def)

text \<open>
  C6. On the object-wrapped reply \<open>{data: {id: 123}}\<close> the course create-call takes the
  object \<open>{id: 123}\<close> for the course identifier, where the expression of the other three
  create-calls yields 123.
\<close>

theorem course_id_object_wrapped_reply:
  "courseId_of (JObj [(''data'', JObj [(''id'', JNum 123)])]) = Inr (JObj [(''id'', JNum 123)]) \<and>
   extract_id (JObj [(''data'', JObj [(''id'', JNum 123)])]) = Inr (JNum 123)"
  by (simp add: courseId_of_def extract_id_def js_get_def)

section \<open>The scoring policy of a quiz\<close>

text \<open>
  C7, as the claim states it, fails: a quiz of one question and a quiz of three questions
  are given the same time limit.
\<close>

theorem quiz_time_limit_not_scaled_counterexample:
  "length (qz_questions quiz_a) = 1 \<and> length (qz_questions quiz_long) = 3 \<and>
   opt_prop (opt_prop (opt_prop (quizPayload (JNum 10) quiz_a) ''quiz_options'') ''time_limit'')
     ''time_value'' = JNum 45 \<and>
   opt_prop (opt_prop (opt_prop (quizPayload (JNum 10) quiz_long) ''quiz_options'') ''time_limit'')
     ''time_value'' = JNum 45"
  by (simp add: quizPayload_def js_get_def quiz_a_def quiz_long_def)

text \<open>
  C7, amended. Every quiz-create payload carries the fixed scoring policy: three allowed
  attempts, a passing grade of 70, random question order, and a time limit of 45 minutes
  whatever the number of questions; the number of questions is sent as
  \<open>max_questions_for_answer\<close>.
\<close>

theorem quiz_scoring_policy:
  "opt_prop (opt_prop (quizPayload topicId qz) ''quiz_options'') ''attempts_allowed'' = JNum 3 \<and>
   opt_prop (opt_prop (quizPayload topicId qz) ''quiz_options'') ''passing_grade'' = JNum 70 \<and>
   opt_prop (opt_prop (quizPayload topicId qz) ''quiz_options'') ''questions_order'' = JStr ''rand'' \<and>
   opt_prop (opt_prop (quizPayload topicId qz) ''quiz_options'') ''time_limit'' =
     JObj [(''time_value'', JNum 45), (''time_type'', JStr ''minutes'')] \<and>
   opt_prop (opt_prop (quizPayload topicId qz) ''quiz_options'') ''max_questions_for_answer'' =
     JNum (int (length (qz_questions qz)))"
  by (simp add: quizPayload_def js_get_def)

section \<open>What retrieval returns\<close>

lemma allContent_of_texts:
  "c \<in> set (allContent_of matches) \<Longrightarrow> 1 \<le> length (cc_text c)"
  by (auto simp: allContent_of_def Suc_le_eq)

lemma allContent_of_keeps:
  "m \<in> set matches \<Longrightarrow> cc_text (to_content m) \<noteq> [] \<Longrightarrow>
   to_content m \<in> set (allContent_of matches)"
  by (simp add: allContent_of_def)

lemma relevantContent_bounds:
  assumes "c \<in> set (relevantContent matches)"
  shows "cc_score c > 3 / 10 \<and> length (cc_text c) > 50"
proof -
  from assms obtain m where m: "relevant m" "c = route_content m" and len: "length (cc_text c) > 50"
    by (auto simp: relevantContent_def)
  from m(1) have "score_or_zero m > 3 / 10"
    by (simp add: relevant_def score_or_zero_def split: option.splits)
  with m(2) len show ?thesis by (simp add: route_content_def)
qed

text \<open>
  C9, as the claim states it, fails: the helper that the pipeline calls returns a match of
  score -1, the lowest there is, with a text of one character.
\<close>

theorem weak_match_is_returned_counterexample:
  "queryPineconeContent (QueryResponse (Some [match_weak])) =
     QueryOk [\<lparr>cc_text = ''x'', cc_fileName = ''Unknown'', cc_score = - 1, cc_fileId = [],
               cc_mimeType = []\<rparr>] 1"
  by (simp add: queryPineconeContent_def allContent_of_def to_content_def md_def str_or_def
      score_or_zero_def match_weak_def)

text \<open>
  C9, amended. \<open>queryPineconeContent\<close>, from which the synthesizer gets its chunks, drops
  the matches without text and no others: every returned chunk has a text of at least
  one character, and every match with a text is returned whatever its score. The
  stand-alone query route keeps only matches of a score above 0.3 with a text of more
  than 50 characters.
\<close>

theorem retrieval_post_filters:
  "(queryPineconeContent backend = QueryOk chunks n \<longrightarrow>
      n = length chunks \<and> (\<forall>c\<in>set chunks. 1 \<le> length (cc_text c))) \<and>
   (\<forall>m\<in>set matches. cc_text (to_content m) \<noteq> [] \<longrightarrow>
      to_content m \<in> set (allContent_of matches)) \<and>
   (\<forall>c\<in>set (relevantContent matches). cc_score c > 3 / 10 \<and> length (cc_text c) > 50)"
proof -
  have "n = length chunks \<and> (\<forall>c\<in>set chunks. 1 \<le> length (cc_text c))"
    if "queryPineconeContent backend = QueryOk chunks n"
    using that allContent_of_texts
    by (auto simp: queryPineconeContent_def split: pinecone_outcome.splits option.splits)
  then show ?thesis
    using allContent_of_keeps relevantContent_bounds by blast
qed

theorem retrieval_post_filters_witness:
  "queryPineconeContent (QueryResponse (Some [match_weak, match_strong])) =
     QueryOk (allContent_of [match_weak, match_strong]) 2 \<and>
   to_content match_weak \<in> set (allContent_of [match_weak, match_strong]) \<and>
   relevantContent [match_weak, match_strong] = [route_content match_strong] \<and>
   cc_score (route_content match_strong) > 3 / 10 \<and>
   length (cc_text (route_content match_strong)) > 50"
proof -
  have run: "queryPineconeContent (QueryResponse (Some [match_weak, match_strong])) =
      QueryOk (allContent_of [match_weak, match_strong]) 2"
    by (simp add: queryPineconeContent_def allContent_of_def to_content_def md_def str_or_def
        match_weak_def match_strong_def)
  have weak: "match_weak \<in> set [match_weak, match_strong] \<and> cc_text (to_content match_weak) \<noteq> []"
    by (simp add: to_content_def md_def str_or_def match_weak_def)
  have route: "relevantContent [match_weak, match_strong] = [route_content match_strong]"
    by (simp add: relevantContent_def relevant_def route_content_def md_def str_or_def
        match_weak_def match_strong_def)
  then have strong: "route_content match_strong \<in> set (relevantContent [match_weak, match_strong])"
    by simp
  from retrieval_post_filters
    [of "QueryResponse (Some [match_weak, match_strong])" "allContent_of [match_weak, match_strong]" 2
      "[match_weak, match_strong]"]
    run weak route strong
  show ?thesis by blast
qed

section \<open>The runs of the pipeline\<close>

text \<open>
  A run ends in one of four ways: retrieval fails, synthesis fails, publishing fails, or
  the course is published. In each the enqueued events are a fixed list.
\<close>

lemmas io_defs =
  POST_def executeCourseCreation_def try_block_def catch_block_def bind_io_def throw_def
  enqueue_def close_def record_calls_def sendProgress_def

lemmas event_defs =
  initial_event_def progress_event_def error_event_def complete_event_def terminal_def

lemma POST_retrieval_failed:
  assumes "queryPineconeContent (pw_pinecone world) = QueryFailed m"
  shows "POST req world =
    \<lparr>enqueued =
       [initial_event,
        progress_event ''querying_pinecone'' 10
          (Text ''Searching knowledge base for relevant content...''),
        error_event (Error m)],
     is_closed = True, invoked = []\<rparr>"
  using assms by (simp add: io_defs)

lemma POST_synthesis_failed:
  assumes "queryPineconeContent (pw_pinecone world) = QueryOk allContent n"
    and "generateEnhancedCourse (pw_openaiApiKey world) (pw_llm world) allContent =
           (calls, GenerateFailed m)"
  shows "POST req world =
    \<lparr>enqueued =
       [initial_event,
        progress_event ''querying_pinecone'' 10
          (Text ''Searching knowledge base for relevant content...''),
        progress_event ''content_found'' 20 (FoundDocuments n),
        progress_event ''generating_content'' 30
          (Text ''Generating comprehensive course structure and content...''),
        error_event (Error m)],
     is_closed = True, invoked = calls\<rparr>"
  using assms by (simp add: io_defs)

lemma POST_publish_failed:
  assumes "queryPineconeContent (pw_pinecone world) = QueryOk allContent n"
    and "generateEnhancedCourse (pw_openaiApiKey world) (pw_llm world) allContent =
           (calls, GenerateOk cs stats)"
    and "createCourseInTutorLMS (pw_config world) (pw_lms world) cs
           (r_generateFeaturedImage req) = (calls', PublishFailed e)"
  shows "POST req world =
    \<lparr>enqueued =
       [initial_event,
        progress_event ''querying_pinecone'' 10
          (Text ''Searching knowledge base for relevant content...''),
        progress_event ''content_found'' 20 (FoundDocuments n),
        progress_event ''generating_content'' 30
          (Text ''Generating comprehensive course structure and content...''),
        progress_event ''content_generated'' 50
          (GeneratedCounts (gs_totalTopics stats) (gs_totalLessons stats)
             (gs_totalQuizzes stats)),
        progress_event ''creating_course'' 60
          (Text ''Creating comprehensive course in Tutor LMS...''),
        error_event (Error ''Failed to create course in Tutor LMS'')],
     is_closed = True, invoked = calls @ calls'\<rparr>"
  using assms by (simp add: io_defs)

lemma POST_published:
  assumes "queryPineconeContent (pw_pinecone world) = QueryOk allContent n"
    and "generateEnhancedCourse (pw_openaiApiKey world) (pw_llm world) allContent =
           (calls, GenerateOk cs stats)"
    and "createCourseInTutorLMS (pw_config world) (pw_lms world) cs
           (r_generateFeaturedImage req) = (calls', PublishOk courseId permalink pstats)"
  shows "POST req world =
    \<lparr>enqueued =
       [initial_event,
        progress_event ''querying_pinecone'' 10
          (Text ''Searching knowledge base for relevant content...''),
        progress_event ''content_found'' 20 (FoundDocuments n),
        progress_event ''generating_content'' 30
          (Text ''Generating comprehensive course structure and content...''),
        progress_event ''content_generated'' 50
          (GeneratedCounts (gs_totalTopics stats) (gs_totalLessons stats)
             (gs_totalQuizzes stats)),
        progress_event ''creating_course'' 60
          (Text ''Creating comprehensive course in Tutor LMS...''),
        progress_event ''course_created'' 80
          (Text ''Comprehensive course created successfully in Tutor LMS''),
        progress_event ''finalizing'' 90
          (Text ''Finalizing course setup with all content...''),
        complete_event courseId (r_title req) permalink stats],
     is_closed = True, invoked = calls @ calls'\<rparr>"
  using assms by (simp add: io_defs)

lemma POST_cases:
  obtains
    (retrieval) m where
      "queryPineconeContent (pw_pinecone world) = QueryFailed m"
  | (synthesis) allContent n calls m where
      "queryPineconeContent (pw_pinecone world) = QueryOk allContent n"
      "generateEnhancedCourse (pw_openaiApiKey world) (pw_llm world) allContent =
         (calls, GenerateFailed m)"
  | (publish) allContent n calls cs stats calls' e where
      "queryPineconeContent (pw_pinecone world) = QueryOk allContent n"
      "generateEnhancedCourse (pw_openaiApiKey world) (pw_llm world) allContent =
         (calls, GenerateOk cs stats)"
      "createCourseInTutorLMS (pw_config world) (pw_lms world) cs
         (r_generateFeaturedImage req) = (calls', PublishFailed e)"
  | (published) allContent n calls cs stats calls' courseId permalink pstats where
      "queryPineconeContent (pw_pinecone world) = QueryOk allContent n"
      "generateEnhancedCourse (pw_openaiApiKey world) (pw_llm world) allContent =
         (calls, GenerateOk cs stats)"
      "createCourseInTutorLMS (pw_config world) (pw_lms world) cs
         (r_generateFeaturedImage req) = (calls', PublishOk courseId permalink pstats)"
proof (cases "queryPineconeContent (pw_pinecone world)")
  case (QueryFailed m)
  then show ?thesis by (rule retrieval)
next
  case (QueryOk allContent n)
  obtain calls g where
    g: "generateEnhancedCourse (pw_openaiApiKey world) (pw_llm world) allContent = (calls, g)"
    by (cases "generateEnhancedCourse (pw_openaiApiKey world) (pw_llm world) allContent")
  show ?thesis
  proof (cases g)
    case (GenerateFailed m)
    with QueryOk g show ?thesis by (auto intro: synthesis)
  next
    case (GenerateOk cs stats)
    obtain calls' r where
      r: "createCourseInTutorLMS (pw_config world) (pw_lms world) cs
            (r_generateFeaturedImage req) = (calls', r)"
      by (cases "createCourseInTutorLMS (pw_config world) (pw_lms world) cs
            (r_generateFeaturedImage req)")
    show ?thesis
    proof (cases r)
      case (PublishFailed e)
      with QueryOk g GenerateOk r show ?thesis by (auto intro: publish)
    next
      case (PublishOk courseId permalink pstats)
      with QueryOk g GenerateOk r show ?thesis by (auto intro: published)
    qed
  qed
qed

text \<open>
  C8. Every run enqueues exactly one terminal event, a \<open>complete\<close> event or an \<open>error\<close>
  event; it is the last event of the stream, and the controller is closed after it.
\<close>

theorem exactly_one_terminal_event:
  "length (filter terminal (enqueued (POST req world))) = 1 \<and>
   terminal (last (enqueued (POST req world))) \<and>
   is_closed (POST req world)"
proof (cases rule: POST_cases [where world = world and req = req])
  case retrieval
  show ?thesis by (simp add: POST_retrieval_failed [OF retrieval] event_defs)
next
  case synthesis
  show ?thesis by (simp add: POST_synthesis_failed [OF synthesis] event_defs)
next
  case publish
  show ?thesis by (simp add: POST_publish_failed [OF publish] event_defs)
next
  case published
  show ?thesis by (simp add: POST_published [OF published] event_defs)
qed

text \<open>
  C4, as the claim states it, fails: when retrieval fails the progress values of the run
  are 0, 10 and then 0 again, the value that every error event carries.
\<close>

theorem error_event_resets_progress_counterexample:
  "map e_progress (enqueued (POST req0 world_down)) = [0, 10, 0]"
proof -
  have "queryPineconeContent (pw_pinecone world_down) = QueryFailed ''Failed to query content''"
    by (simp add: world_down_def queryPineconeContent_def)
  from POST_retrieval_failed [OF this] show ?thesis
    by (simp add: event_defs)
qed

text \<open>
  C4, amended. Within one run the progress values of the status, progress and complete
  events are non-decreasing in the order of emission; an error event carries the
  progress value 0.
\<close>

theorem progress_monotone_before_error:
  "sorted (map e_progress
     (filter (\<lambda>ev. e_type ev \<noteq> ErrorEvent) (enqueued (POST req world)))) \<and>
   (\<forall>ev\<in>set (enqueued (POST req world)). e_type ev = ErrorEvent \<longrightarrow> e_progress ev = 0)"
proof (cases rule: POST_cases [where world = world and req = req])
  case retrieval
  show ?thesis by (simp add: POST_retrieval_failed [OF retrieval] event_defs)
next
  case synthesis
  show ?thesis by (simp add: POST_synthesis_failed [OF synthesis] event_defs)
next
  case publish
  show ?thesis by (simp add: POST_publish_failed [OF publish] event_defs)
next
  case published
  show ?thesis by (simp add: POST_published [OF published] event_defs)
qed

theorem progress_monotone_before_error_witness:
  "error_event (Error ''Failed to query content'') \<in> set (enqueued (POST req0 world_down)) \<and>
   e_type (error_event (Error ''Failed to query content'')) = ErrorEvent \<and>
   e_progress (error_event (Error ''Failed to query content'')) = 0 \<and>
   sorted (map e_progress
     (filter (\<lambda>ev. e_type ev \<noteq> ErrorEvent) (enqueued (POST req0 world_down))))"
proof -
  have "queryPineconeContent (pw_pinecone world_down) = QueryFailed ''Failed to query content''"
    by (simp add: world_down_def queryPineconeContent_def)
  from POST_retrieval_failed [OF this, of req0]
  have mem: "error_event (Error ''Failed to query content'') \<in> set (enqueued (POST req0 world_down))"
    by simp
  have err: "e_type (error_event (Error ''Failed to query content'')) = ErrorEvent"
    by (simp add: error_event_def)
  from progress_monotone_before_error [of req0 world_down] mem err
  show ?thesis by blast
qed

text \<open>
  C2, as the claim states it, fails: with the vector search down the run ends with an
  error event after the first progress event, and the synthesis stage is never invoked.
\<close>

theorem retrieval_failure_is_fatal_counterexample:
  "POST req0 world_down =
     \<lparr>enqueued =
        [initial_event,
         progress_event ''querying_pinecone'' 10
           (Text ''Searching knowledge base for relevant content...''),
         error_event (Error ''Failed to query content'')],
      is_closed = True, invoked = []\<rparr>"
proof -
  have "queryPineconeContent (pw_pinecone world_down) = QueryFailed ''Failed to query content''"
    by (simp add: world_down_def queryPineconeContent_def)
  from POST_retrieval_failed [OF this] show ?thesis .
qed

lemma POST_empty_retrieval:
  assumes "pw_pinecone world = QueryResponse (Some matches)" "allContent_of matches = []"
    and "pw_openaiApiKey world"
  shows "progress_event ''content_found'' 20 (FoundDocuments 0) \<in> set (enqueued (POST req world)) \<and>
    (\<exists>rest. invoked (POST req world) =
       ChatCompletion ''No specific training materials found. Generate comprehensive content based on industry best practices and OSHA standards.'' # rest)"
proof -
  have q: "queryPineconeContent (pw_pinecone world) = QueryOk [] 0"
    using assms(1,2) by (simp add: queryPineconeContent_def)
  have c: "contentText [] = ''No specific training materials found. Generate comprehensive content based on industry best practices and OSHA standards.''"
    by (simp add: contentText_def)
  obtain g where g: "generateEnhancedCourse (pw_openaiApiKey world) (pw_llm world) [] =
      ([ChatCompletion (contentText [])], g)"
    using assms(3) by (simp add: generateEnhancedCourse_def)
  show ?thesis
  proof (cases g)
    case (GenerateFailed m)
    from POST_synthesis_failed [OF q g [unfolded GenerateFailed], of req] c
    show ?thesis by simp
  next
    case (GenerateOk cs stats)
    obtain calls' r where
      r: "createCourseInTutorLMS (pw_config world) (pw_lms world) cs
            (r_generateFeaturedImage req) = (calls', r)"
      by (cases "createCourseInTutorLMS (pw_config world) (pw_lms world) cs
            (r_generateFeaturedImage req)")
    show ?thesis
    proof (cases r)
      case (PublishFailed e)
      from POST_publish_failed [OF q g [unfolded GenerateOk] r [unfolded PublishFailed]] c
      show ?thesis by simp
    next
      case (PublishOk courseId permalink pstats)
      from POST_published [OF q g [unfolded GenerateOk] r [unfolded PublishOk]] c
      show ?thesis by simp
    qed
  qed
qed

text \<open>
  C2, amended. When the retrieval stage fails because the embedding or vector-search
  backend is unreachable or unconfigured, the run ends with an error event and the
  synthesis stage is not invoked. When retrieval succeeds and returns no chunk, the run
  goes on: it reports zero documents found, and the synthesis stage is invoked with the
  instruction to generate from industry best practices in place of training material.
\<close>

theorem retrieval_failure_and_empty_retrieval:
  "(pw_pinecone world = BackendThrows \<longrightarrow>
      enqueued (POST req world) =
        [initial_event,
         progress_event ''querying_pinecone'' 10
           (Text ''Searching knowledge base for relevant content...''),
         error_event (Error ''Failed to query content'')] \<and>
      is_closed (POST req world) \<and> invoked (POST req world) = []) \<and>
   (pw_pinecone world = QueryResponse (Some matches) \<and> allContent_of matches = [] \<and>
    pw_openaiApiKey world \<longrightarrow>
      progress_event ''content_found'' 20 (FoundDocuments 0) \<in> set (enqueued (POST req world)) \<and>
      (\<exists>rest. invoked (POST req world) =
         ChatCompletion ''No specific training materials found. Generate comprehensive content based on industry best practices and OSHA standards.'' # rest))"
proof -
  have "POST req world =
      \<lparr>enqueued =
         [initial_event,
          progress_event ''querying_pinecone'' 10
            (Text ''Searching knowledge base for relevant content...''),
          error_event (Error ''Failed to query content'')],
       is_closed = True, invoked = []\<rparr>"
    if "pw_pinecone world = BackendThrows"
    using that by (intro POST_retrieval_failed) (simp add: queryPineconeContent_def)
  then show ?thesis
    using POST_empty_retrieval [of world matches req] by auto
qed

theorem retrieval_failure_and_empty_retrieval_witness:
  "e_type (last (enqueued (POST req0 world_down))) = ErrorEvent \<and>
   invoked (POST req0 world_down) = [] \<and>
   progress_event ''content_found'' 20 (FoundDocuments 0)
     \<in> set (enqueued (POST req0 world_no_chunks)) \<and>
   hd (invoked (POST req0 world_no_chunks)) =
     ChatCompletion ''No specific training materials found. Generate comprehensive content based on industry best practices and OSHA standards.''"
proof -
  have down: "pw_pinecone world_down = BackendThrows"
    by (simp add: world_down_def)
  have empty: "pw_pinecone world_no_chunks = QueryResponse (Some []) \<and> allContent_of [] = [] \<and>
      pw_openaiApiKey world_no_chunks"
    by (simp add: world_no_chunks_def world_down_def allContent_of_def)
  from retrieval_failure_and_empty_retrieval [of world_down req0] down
  have 1: "e_type (last (enqueued (POST req0 world_down))) = ErrorEvent \<and>
      invoked (POST req0 world_down) = []"
    by (simp add: error_event_def)
  from retrieval_failure_and_empty_retrieval [of world_no_chunks req0 "[]"] empty
  have 2: "progress_event ''content_found'' 20 (FoundDocuments 0)
        \<in> set (enqueued (POST req0 world_no_chunks)) \<and>
      hd (invoked (POST req0 world_no_chunks)) =
        ChatCompletion ''No specific training materials found. Generate comprehensive content based on industry best practices and OSHA standards.''"
    by auto
  from 1 2 show ?thesis by simp
qed

section \<open>The runs of the publisher\<close>

lemma and_then_Inl [simp]: "and_then (cs, Inl e) f = (cs, Inl e)"
  by (simp add: and_then_def)

lemma and_then_Inr [simp]: "and_then (cs, Inr a) f = (cs @ fst (f a), snd (f a))"
  by (simp add: and_then_def split: prod.splits)

lemma snd_and_then:
  "snd m = Inr a \<Longrightarrow> snd (and_then m f) = snd (f a)"
  by (cases m) simp

lemma fst_and_then:
  "snd m = Inr a \<Longrightarrow> fst (and_then m f) = fst m @ fst (f a)"
  by (cases m) simp

lemma and_then_calls:
  assumes "c \<in> set (fst (and_then m f))"
  shows "c \<in> set (fst m) \<or> (\<exists>a. c \<in> set (fst (f a)))"
proof (cases m)
  case (Pair cs r)
  with assms show ?thesis by (cases r) auto
qed

text \<open>A loop whose body never throws does not throw, and makes only calls of its body.\<close>

lemma for_each_returns:
  "(\<And>i x. snd (body i x) = Inr ()) \<Longrightarrow> snd (for_each body i xs) = Inr ()"
  by (induction xs arbitrary: i) (simp_all add: snd_and_then)

lemma for_each_calls:
  "c \<in> set (fst (for_each body i xs)) \<Longrightarrow> \<exists>j x. c \<in> set (fst (body j x))"
proof (induction xs arbitrary: i)
  case Nil
  then show ?case by simp
next
  case (Cons x xs)
  from and_then_calls [OF Cons.prems [simplified]] Cons.IH show ?case by blast
qed


lemma foldl_add_sum_list:
  "foldl (\<lambda>sum x. sum + f x) (a :: nat) xs = a + sum_list (map f xs)"
  by (induction xs arbitrary: a) simp_all

subsection \<open>Steps that do not throw\<close>

lemma extract_id_returns:
  "v \<noteq> JNull \<Longrightarrow> v \<noteq> JUndefined \<Longrightarrow> \<exists>i. extract_id v = Inr i"
  by (cases v) (simp_all add: extract_id_def)

lemma create_node_returns:
  assumes "answered r"
  shows "\<exists>created. snd (create_node ep body r) = Inr created"
proof (cases r)
  case NetworkError
  with assms show ?thesis by simp
next
  case (HttpResponse ok b)
  show ?thesis
  proof (cases "ok")
    case False
    with HttpResponse show ?thesis by (simp add: create_node_def)
  next
    case True
    with assms HttpResponse obtain v where v: "b = Some v" "v \<noteq> JNull" "v \<noteq> JUndefined"
      by (auto split: option.splits)
    from extract_id_returns [OF v(2,3)] obtain i where "extract_id v = Inr i" ..
    with HttpResponse True v(1) show ?thesis by (simp add: create_node_def)
  qed
qed

lemma create_node_calls [simp]: "fst (create_node ep body r) = [LmsPost ep body]"
  by (simp add: create_node_def)

lemma attach_image_returns:
  "w_thumbnail w subj \<noteq> NetworkError \<Longrightarrow> snd (attach_image w subj k t d u ep) = Inr ()"
  by (simp add: attach_image_def split: image_result.splits option.splits fetch_result.splits)

lemma attach_image_first_call:
  "\<exists>rest. fst (attach_image w subj k t d u ep) = GenerateImage k t d # rest"
  by (simp add: attach_image_def split: image_result.splits option.splits)

lemma attach_image_upload:
  assumes "w_dalle w subj = Some url" "url \<noteq> []"
  shows "UploadImage url u \<in> set (fst (attach_image w subj k t d u ep))"
  using assms
  by (simp add: attach_image_def generateFeaturedImage_def split: option.splits)

lemma attach_image_lesson_calls:
  "c \<in> set (fst (attach_image w subj LessonKind t d u ep)) \<Longrightarrow> \<not> is_course_image c"
  by (auto simp: attach_image_def split: image_result.splits option.splits if_splits)

lemma question_step_returns:
  "answered (w_question w t j) \<Longrightarrow> snd (question_step w quizId t j q) = Inr ()"
  by (cases "w_question w t j") (auto simp: question_step_def split: option.splits)

lemma lesson_step_returns:
  assumes "answered (w_lesson w t l)" "w_thumbnail w (LessonImage t l) \<noteq> NetworkError"
  shows "snd (lesson_step w topicId t l ls) = Inr ()"
proof -
  obtain created where
    "snd (create_node Lessons (lessonPayload topicId ls) (w_lesson w t l)) = Inr created"
    using create_node_returns [OF assms(1)] by blast
  then show ?thesis
    unfolding lesson_step_def
    by (simp add: snd_and_then attach_image_returns [OF assms(2)] split: option.splits)
qed

lemma topic_step_returns:
  assumes "answered (w_topic w t)" "\<forall>l. answered (w_lesson w t l)" "answered (w_quiz w t)"
    and "\<forall>j. answered (w_question w t j)" "\<forall>subj. w_thumbnail w subj \<noteq> NetworkError"
  shows "snd (topic_step w courseId t tp) = Inr ()"
proof -
  obtain created where
    created: "snd (create_node Topics (topicPayload courseId tp) (w_topic w t)) = Inr created"
    using create_node_returns [OF assms(1)] by blast
  have lessons: "snd (for_each (lesson_step w topicId t) 0 (t_lessons tp)) = Inr ()" for topicId
    using assms(2,5) by (intro for_each_returns lesson_step_returns) auto
  have questions: "snd (for_each (question_step w quizId t) 0 qs) = Inr ()" for quizId qs
    using assms(4) by (intro for_each_returns question_step_returns) auto
  have quiz: "snd (and_then (create_node Quizzes (quizPayload topicId qz) (w_quiz w t))
        (\<lambda>createdQuiz. case createdQuiz of
           None \<Rightarrow> ([], Inr ())
         | Some quizId \<Rightarrow> for_each (question_step w quizId t) 0 (qz_questions qz))) = Inr ()"
    for topicId qz
  proof -
    obtain createdQuiz where
      "snd (create_node Quizzes (quizPayload topicId qz) (w_quiz w t)) = Inr createdQuiz"
      using create_node_returns [OF assms(3)] by blast
    then show ?thesis
      by (simp add: snd_and_then questions split: option.splits)
  qed
  show ?thesis
    unfolding topic_step_def
    by (simp add: snd_and_then [OF created] snd_and_then [OF lessons] quiz split: option.splits)
qed

subsection \<open>Success and statistics\<close>

lemmas run_defs =
  createCourseInTutorLMS_def publish_body_def create_course_def course_image_stage_def
  topic_step_def lesson_step_def question_step_def create_node_def attach_image_def
  generateFeaturedImage_def courseId_of_def extract_id_def js_get_def slugify_def
  toLowerCase_def is_slug_char_def publish_statistics_def str_or_def

lemmas example_defs =
  cfg0_def cs_a_def course_a_def topic_a_def topic_b_def quiz_a_def lesson_a_def w_up_def
  w_quizzes_fail_def w_topics_fail_def w_topic_unreachable_def w_images_def

text \<open>
  C3, as the claim states it, fails: the LMS refuses every quiz, the one quiz of the tree
  is not created, and the result reports one quiz.
\<close>

theorem failed_quizzes_still_counted_counterexample:
  "w_quiz w_quizzes_fail 0 = HttpResponse False None \<and>
   w_quiz w_quizzes_fail 1 = HttpResponse False None \<and>
   snd (createCourseInTutorLMS cfg0 w_quizzes_fail cs_a (JBool False)) =
     PublishOk (JNum 5) ''https://lms.example/course/fall-protection-basics/''
       \<lparr>totalTopics = 2, totalLessons = 2, totalQuizzes = 1\<rparr>"
  by (simp add: run_defs example_defs)

text \<open>
  C3, amended. When the configuration is set, the root course create-call succeeds and no
  later call throws (every later \<open>fetch\<close> resolves, and every \<open>ok\<close> reply has a JSON body
  other than \<open>null\<close>), the result reports success whichever topic, lesson, quiz and
  question create-calls the LMS refuses, and its statistics are the counts of the input
  tree: the number of topics, the number of lessons of all topics, and the number of
  topics that have a quiz.
\<close>

theorem publish_success_and_statistics:
  assumes "baseUrl cfg \<noteq> [] \<and> consumerKey cfg \<noteq> [] \<and> consumerSecret cfg \<noteq> []"
    and "snd (create_course w cs) = Inr courseId"
    and "\<forall>t. answered (w_topic w t)"
    and "\<forall>t l. answered (w_lesson w t l)"
    and "\<forall>t. answered (w_quiz w t)"
    and "\<forall>t j. answered (w_question w t j)"
    and "\<forall>subj. w_thumbnail w subj \<noteq> NetworkError"
  shows "\<exists>calls permalink stats.
    createCourseInTutorLMS cfg w cs flag = (calls, PublishOk courseId permalink stats) \<and>
    totalTopics stats = length (cs_topics cs) \<and>
    totalLessons stats = sum_list (map (\<lambda>tp. length (t_lessons tp)) (cs_topics cs)) \<and>
    totalQuizzes stats = length (filter (\<lambda>tp. t_quiz tp \<noteq> None) (cs_topics cs))"
proof -
  have image: "snd (course_image_stage w cs sg courseId) = Inr ()" for sg
    using assms(7) by (simp add: course_image_stage_def attach_image_returns)
  have topics: "snd (for_each (topic_step w courseId) 0 (cs_topics cs)) = Inr ()"
    using assms(3-7) by (intro for_each_returns topic_step_returns) auto
  have "snd (publish_body cfg w cs flag) = Inr courseId"
    using assms(1)
    by (simp add: publish_body_def Let_def snd_and_then [OF assms(2)] snd_and_then [OF image]
        snd_and_then [OF topics])
  then obtain calls where "publish_body cfg w cs flag = (calls, Inr courseId)"
    by (cases "publish_body cfg w cs flag") simp
  then show ?thesis
    by (simp add: createCourseInTutorLMS_def publish_statistics_def foldl_add_sum_list)
qed

theorem publish_success_and_statistics_witness:
  "\<exists>calls permalink stats.
     createCourseInTutorLMS cfg0 w_quizzes_fail cs_a (JBool False) =
       (calls, PublishOk (JNum 5) permalink stats) \<and>
     totalTopics stats = 2 \<and> totalLessons stats = 2 \<and> totalQuizzes stats = 1"
proof -
  have cfg: "baseUrl cfg0 \<noteq> [] \<and> consumerKey cfg0 \<noteq> [] \<and> consumerSecret cfg0 \<noteq> []"
    by (simp add: cfg0_def)
  have course: "snd (create_course w_quizzes_fail cs_a) = Inr (JNum 5)"
    by (simp add: create_course_def courseId_of_def js_get_def w_quizzes_fail_def w_up_def)
  have replies:
    "\<forall>t. answered (w_topic w_quizzes_fail t)"
    "\<forall>t l. answered (w_lesson w_quizzes_fail t l)"
    "\<forall>t. answered (w_quiz w_quizzes_fail t)"
    "\<forall>t j. answered (w_question w_quizzes_fail t j)"
    "\<forall>subj. w_thumbnail w_quizzes_fail subj \<noteq> NetworkError"
    by (simp_all add: w_quizzes_fail_def w_up_def)
  have counts: "length (cs_topics cs_a) = 2"
    "sum_list (map (\<lambda>tp. length (t_lessons tp)) (cs_topics cs_a)) = 2"
    "length (filter (\<lambda>tp. t_quiz tp \<noteq> None) (cs_topics cs_a)) = 1"
    by (simp_all add: cs_a_def topic_a_def topic_b_def)
  from publish_success_and_statistics [OF cfg course replies, of "JBool False"] counts
  show ?thesis by simp
qed

subsection \<open>Rejected topics\<close>





subsection \<open>The featured-image flag\<close>

lemma lesson_step_no_course_image:
  assumes "c \<in> set (fst (lesson_step w topicId t l ls))"
  shows "\<not> is_course_image c"
proof -
  from and_then_calls [OF assms [unfolded lesson_step_def]]
  show ?thesis
    by (auto split: option.splits dest: attach_image_lesson_calls)
qed

lemma question_step_no_course_image:
  "c \<in> set (fst (question_step w quizId t j q)) \<Longrightarrow> \<not> is_course_image c"
  by (auto simp: question_step_def)

lemma quiz_no_course_image:
  assumes "c \<in> set (fst (and_then (create_node Quizzes body r)
      (\<lambda>createdQuiz. case createdQuiz of
         None \<Rightarrow> ([], Inr ())
       | Some quizId \<Rightarrow> for_each (question_step w quizId t) 0 qs)))"
  shows "\<not> is_course_image c"
proof -
  from and_then_calls [OF assms]
  show ?thesis
    by (auto split: option.splits dest!: for_each_calls dest: question_step_no_course_image)
qed

lemma lessons_then_quiz_no_course_image:
  assumes "c \<in> set (fst (and_then (for_each (lesson_step w topicId t) 0 lessons)
      (\<lambda>u. case quiz of
         None \<Rightarrow> ([], Inr ())
       | Some qz \<Rightarrow>
           and_then (create_node Quizzes (quizPayload topicId qz) (w_quiz w t))
             (\<lambda>createdQuiz. case createdQuiz of
                None \<Rightarrow> ([], Inr ())
              | Some quizId \<Rightarrow> for_each (question_step w quizId t) 0 (qz_questions qz)))))"
  shows "\<not> is_course_image c"
proof -
  from and_then_calls [OF assms]
  show ?thesis
    by (auto split: option.splits dest!: for_each_calls
        dest: lesson_step_no_course_image quiz_no_course_image)
qed

lemma topic_step_no_course_image:
  assumes "c \<in> set (fst (topic_step w courseId t tp))"
  shows "\<not> is_course_image c"
proof -
  from and_then_calls [OF assms [unfolded topic_step_def]]
  consider "c \<in> set (fst (create_node Topics (topicPayload courseId tp) (w_topic w t)))"
    | created where "c \<in> set (fst (case created of
          None \<Rightarrow> ([], Inr ())
        | Some topicId \<Rightarrow>
            and_then (for_each (lesson_step w topicId t) 0 (t_lessons tp))
              (\<lambda>u. case t_quiz tp of
                     None \<Rightarrow> ([], Inr ())
                   | Some qz \<Rightarrow>
                       and_then (create_node Quizzes (quizPayload topicId qz) (w_quiz w t))
                         (\<lambda>createdQuiz.
                            case createdQuiz of
                              None \<Rightarrow> ([], Inr ())
                            | Some quizId \<Rightarrow>
                                for_each (question_step w quizId t) 0 (qz_questions qz)))))"
    by blast
  then show ?thesis
  proof cases
    case 1
    then show ?thesis by auto
  next
    case (2 created)
    show ?thesis
    proof (cases created)
      case None
      with 2 show ?thesis by simp
    next
      case (Some topicId)
      with 2 show ?thesis
        by (auto dest: lessons_then_quiz_no_course_image)
    qed
  qed
qed

lemma topics_no_course_image:
  "c \<in> set (fst (for_each (topic_step w courseId) i tps)) \<Longrightarrow> \<not> is_course_image c"
  by (auto dest!: for_each_calls dest: topic_step_no_course_image)

lemma fst_and_then_return: "fst (and_then m (\<lambda>u. ([], r))) = fst m"
  by (cases m) (auto simp: and_then_def split: sum.splits)

lemma and_then_first_calls: "c \<in> set (fst m) \<Longrightarrow> c \<in> set (fst (and_then m f))"
  by (cases m) (auto simp: and_then_def split: sum.splits prod.splits)

lemma publish_calls:
  assumes "baseUrl cfg \<noteq> [] \<and> consumerKey cfg \<noteq> [] \<and> consumerSecret cfg \<noteq> []"
    and "snd (create_course w cs) = Inr courseId"
  shows "fst (createCourseInTutorLMS cfg w cs flag) =
    LmsPost Courses (courseData (cs_course cs)) #
    fst (and_then
      (course_image_stage w cs (if flag = JUndefined then JBool True else flag) courseId)
      (\<lambda>u. for_each (topic_step w courseId) 0 (cs_topics cs)))"
proof -
  have course: "create_course w cs = ([LmsPost Courses (courseData (cs_course cs))], Inr courseId)"
    using assms(2) by (simp add: create_course_def)
  obtain c2 r2 where stage:
    "course_image_stage w cs (if flag = JUndefined then JBool True else flag) courseId = (c2, r2)"
    by (cases "course_image_stage w cs (if flag = JUndefined then JBool True else flag) courseId")
  have "fst (publish_body cfg w cs flag) =
    LmsPost Courses (courseData (cs_course cs)) #
    fst (and_then (c2, r2) (\<lambda>u. for_each (topic_step w courseId) 0 (cs_topics cs)))"
    using assms(1)
    by (cases r2) (simp_all add: publish_body_def Let_def course stage fst_and_then_return)
  moreover have "fst (createCourseInTutorLMS cfg w cs flag) = fst (publish_body cfg w cs flag)"
    by (simp add: createCourseInTutorLMS_def split: prod.splits sum.splits)
  ultimately show ?thesis
    by (simp add: stage)
qed

lemma course_image_iff:
  assumes "baseUrl cfg \<noteq> [] \<and> consumerKey cfg \<noteq> [] \<and> consumerSecret cfg \<noteq> []"
    and "snd (create_course w cs) = Inr courseId"
  shows "(\<exists>c\<in>set (fst (createCourseInTutorLMS cfg w cs flag)). is_course_image c) \<longleftrightarrow>
    (flag = JBool True \<or> flag = JUndefined)"
proof (cases "flag = JBool True \<or> flag = JUndefined")
  case True
  then have sg: "(if flag = JUndefined then JBool True else flag) = JBool True"
    by auto
  obtain rest where "fst (course_image_stage w cs (JBool True) courseId) =
      GenerateImage CourseKind (c_title (cs_course cs)) (c_description (cs_course cs)) # rest"
    using attach_image_first_call
      [of w CourseImage CourseKind "c_title (cs_course cs)" "c_description (cs_course cs)"
        "c_title (cs_course cs) @ '' - Featured Image''" "CourseById courseId"]
    by (auto simp: course_image_stage_def)
  then have "GenerateImage CourseKind (c_title (cs_course cs)) (c_description (cs_course cs))
      \<in> set (fst (course_image_stage w cs (JBool True) courseId))"
    by simp
  then have "GenerateImage CourseKind (c_title (cs_course cs)) (c_description (cs_course cs))
      \<in> set (fst (createCourseInTutorLMS cfg w cs flag))"
    unfolding publish_calls [OF assms] sg
    by (simp add: and_then_first_calls)
  moreover have "is_course_image
      (GenerateImage CourseKind (c_title (cs_course cs)) (c_description (cs_course cs)))"
    by simp
  ultimately show ?thesis using True by blast
next
  case False
  then have "course_image_stage w cs (if flag = JUndefined then JBool True else flag) courseId =
      ([], Inr ())"
    by (simp add: course_image_stage_def)
  then have "fst (createCourseInTutorLMS cfg w cs flag) =
      LmsPost Courses (courseData (cs_course cs)) #
      fst (for_each (topic_step w courseId) 0 (cs_topics cs))"
    by (simp add: publish_calls [OF assms])
  with False show ?thesis
    by (auto dest: topics_no_course_image)
qed

lemma lesson_step_image:
  assumes "snd (create_node Lessons (lessonPayload topicId ls) (w_lesson w t l)) =
      Inr (Some lessonId)"
  shows "fst (lesson_step w topicId t l ls) =
    LmsPost Lessons (lessonPayload topicId ls) #
    fst (attach_image w (LessonImage t l) LessonKind (l_title ls)
           (str_or (l_imageDescription ls) (l_title ls)) (l_title ls @ '' - Lesson Image'')
           (LessonById lessonId))"
  unfolding lesson_step_def by (simp add: fst_and_then [OF assms])

text \<open>
  C10, as the claim states it, fails: with the flag absent from the request the parameter
  takes its default, and the featured image of the course is asked for.
\<close>

theorem absent_flag_generates_course_image_counterexample:
  "filter is_course_image (fst (createCourseInTutorLMS cfg0 w_up cs_a JUndefined)) =
     [GenerateImage CourseKind ''Fall Protection Basics'' ''D'']"
  by (simp add: run_defs example_defs)

text \<open>
  C10, amended. In a run that creates the course, the featured image of the course is
  asked for exactly when the flag is the boolean \<open>true\<close> or is absent (\<open>undefined\<close>, for
  which the parameter takes its default \<open>true\<close>); every other value, truthy or not, skips
  it. The flag reaches nothing else: after the course stage the calls of a run are those
  of the topic loop, which does not take the flag. For every lesson that is created, the
  call after its create-call asks for the lesson image, and the image is uploaded whenever
  one was generated.
\<close>

theorem featured_image_flag:
  "(baseUrl cfg \<noteq> [] \<and> consumerKey cfg \<noteq> [] \<and> consumerSecret cfg \<noteq> [] \<and>
    snd (create_course w cs) = Inr courseId \<longrightarrow>
      ((\<exists>c\<in>set (fst (createCourseInTutorLMS cfg w cs flag)). is_course_image c) \<longleftrightarrow>
         (flag = JBool True \<or> flag = JUndefined)) \<and>
      fst (createCourseInTutorLMS cfg w cs flag) =
        LmsPost Courses (courseData (cs_course cs)) #
        fst (and_then
          (course_image_stage w cs (if flag = JUndefined then JBool True else flag) courseId)
          (\<lambda>u. for_each (topic_step w courseId) 0 (cs_topics cs)))) \<and>
   (snd (create_node Lessons (lessonPayload topicId ls) (w_lesson w t l)) = Inr (Some lessonId) \<longrightarrow>
      (\<exists>rest. fst (lesson_step w topicId t l ls) =
         LmsPost Lessons (lessonPayload topicId ls) #
         GenerateImage LessonKind (l_title ls) (str_or (l_imageDescription ls) (l_title ls)) #
         rest) \<and>
      (\<forall>url. w_dalle w (LessonImage t l) = Some url \<and> url \<noteq> [] \<longrightarrow>
         UploadImage url (l_title ls @ '' - Lesson Image'')
           \<in> set (fst (lesson_step w topicId t l ls))))"
proof -
  have lesson: "(\<exists>rest. fst (lesson_step w topicId t l ls) =
         LmsPost Lessons (lessonPayload topicId ls) #
         GenerateImage LessonKind (l_title ls) (str_or (l_imageDescription ls) (l_title ls)) #
         rest) \<and>
      (\<forall>url. w_dalle w (LessonImage t l) = Some url \<and> url \<noteq> [] \<longrightarrow>
         UploadImage url (l_title ls @ '' - Lesson Image'')
           \<in> set (fst (lesson_step w topicId t l ls)))"
    if created: "snd (create_node Lessons (lessonPayload topicId ls) (w_lesson w t l)) =
      Inr (Some lessonId)"
    using attach_image_first_call
      [of w "LessonImage t l" LessonKind "l_title ls"
        "str_or (l_imageDescription ls) (l_title ls)" "l_title ls @ '' - Lesson Image''"
        "LessonById lessonId"]
      attach_image_upload
      [of w "LessonImage t l" _ "l_title ls @ '' - Lesson Image''" LessonKind "l_title ls"
        "str_or (l_imageDescription ls) (l_title ls)" "LessonById lessonId"]
    by (auto simp: lesson_step_image [OF created])
  show ?thesis
    using course_image_iff [of cfg w cs courseId flag] publish_calls [of cfg w cs courseId flag]
      lesson
    by blast
qed

theorem featured_image_flag_witness:
  "(\<exists>c\<in>set (fst (createCourseInTutorLMS cfg0 w_up cs_a (JBool True))). is_course_image c) \<and>
   (\<exists>c\<in>set (fst (createCourseInTutorLMS cfg0 w_up cs_a JUndefined)). is_course_image c) \<and>
   \<not> (\<exists>c\<in>set (fst (createCourseInTutorLMS cfg0 w_up cs_a (JNum 1))). is_course_image c) \<and>
   (\<exists>rest. fst (lesson_step w_images (JNum 10) 0 0 lesson_a) =
      LmsPost Lessons (lessonPayload (JNum 10) lesson_a) #
      GenerateImage LessonKind ''Anchors'' ''Anchors'' # rest) \<and>
   UploadImage ''https://img.example/1.png'' ''Anchors - Lesson Image''
     \<in> set (fst (lesson_step w_images (JNum 10) 0 0 lesson_a))"
proof -
  have cfg: "baseUrl cfg0 \<noteq> [] \<and> consumerKey cfg0 \<noteq> [] \<and> consumerSecret cfg0 \<noteq> []"
    by (simp add: cfg0_def)
  have course: "snd (create_course w_up cs_a) = Inr (JNum 5)"
    by (simp add: create_course_def courseId_of_def js_get_def w_up_def)
  have created: "snd (create_node Lessons (lessonPayload (JNum 10) lesson_a) (w_lesson w_images 0 0)) =
      Inr (Some (JNum 100))"
    by (simp add: create_node_def extract_id_def js_get_def w_images_def w_up_def)
  have image: "w_dalle w_images (LessonImage 0 0) = Some ''https://img.example/1.png'' \<and>
      ''https://img.example/1.png'' \<noteq> []"
    by (simp add: w_images_def)
  have texts: "l_title lesson_a = ''Anchors''"
    "str_or (l_imageDescription lesson_a) (l_title lesson_a) = ''Anchors''"
    by (simp_all add: lesson_a_def str_or_def)
  from featured_image_flag [of cfg0 w_up cs_a "JNum 5" "JBool True"] cfg course
  have "(\<exists>c\<in>set (fst (createCourseInTutorLMS cfg0 w_up cs_a (JBool True))). is_course_image c) \<longleftrightarrow>
      (JBool True = JBool True \<or> JBool True = JUndefined)"
    by blast
  then have 1: "\<exists>c\<in>set (fst (createCourseInTutorLMS cfg0 w_up cs_a (JBool True))). is_course_image c"
    by simp
  from featured_image_flag [of cfg0 w_up cs_a "JNum 5" JUndefined] cfg course
  have "(\<exists>c\<in>set (fst (createCourseInTutorLMS cfg0 w_up cs_a JUndefined)). is_course_image c) \<longleftrightarrow>
      (JUndefined = JBool True \<or> JUndefined = JUndefined)"
    by blast
  then have 2: "\<exists>c\<in>set (fst (createCourseInTutorLMS cfg0 w_up cs_a JUndefined)). is_course_image c"
    by simp
  from featured_image_flag [of cfg0 w_up cs_a "JNum 5" "JNum 1"] cfg course
  have "(\<exists>c\<in>set (fst (createCourseInTutorLMS cfg0 w_up cs_a (JNum 1))). is_course_image c) \<longleftrightarrow>
      (JNum 1 = JBool True \<or> JNum 1 = JUndefined)"
    by blast
  then have 3: "\<not> (\<exists>c\<in>set (fst (createCourseInTutorLMS cfg0 w_up cs_a (JNum 1))). is_course_image c)"
    by simp
  from featured_image_flag
    [where w = w_images and topicId = "JNum 10" and ls = lesson_a and t = 0 and l = 0
      and lessonId = "JNum 100"]
    created
  have "(\<exists>rest. fst (lesson_step w_images (JNum 10) 0 0 lesson_a) =
        LmsPost Lessons (lessonPayload (JNum 10) lesson_a) #
        GenerateImage LessonKind (l_title lesson_a)
          (str_or (l_imageDescription lesson_a) (l_title lesson_a)) # rest) \<and>
      (\<forall>url. w_dalle w_images (LessonImage 0 0) = Some url \<and> url \<noteq> [] \<longrightarrow>
         UploadImage url (l_title lesson_a @ '' - Lesson Image'')
           \<in> set (fst (lesson_step w_images (JNum 10) 0 0 lesson_a)))"
    by blast
  with image texts
  have 4: "(\<exists>rest. fst (lesson_step w_images (JNum 10) 0 0 lesson_a) =
        LmsPost Lessons (lessonPayload (JNum 10) lesson_a) #
        GenerateImage LessonKind ''Anchors'' ''Anchors'' # rest) \<and>
      UploadImage ''https://img.example/1.png'' ''Anchors - Lesson Image''
        \<in> set (fst (lesson_step w_images (JNum 10) 0 0 lesson_a))"
    by auto
  from 1 2 3 4 show ?thesis by blast
qed

end
